theory Spec2Isabelle
  imports Main
begin

section \<open>Data model\<close>

text \<open>
  The tables follow the schema migration (\<^verbatim>\<open>CREATE TABLE public.orders\<close>, \<^verbatim>\<open>products\<close>,
  \<^verbatim>\<open>reviews\<close>, \<^verbatim>\<open>notifications\<close>). Identifiers are the UUID strings the client sees.
  A \<^verbatim>\<open>TIMESTAMP WITH TIME ZONE\<close> is an instant in milliseconds since the epoch, a
  \<^verbatim>\<open>DATE\<close> is a day number since the epoch, and free text typed by a user is a
  sequence of UTF-16 code units, as a JavaScript string is. Nullable columns
  are options.
\<close>

type_synonym uuid = string
type_synonym timestamp = int
type_synonym date = int
type_synonym jstext = "nat list"

datatype order_status = Pending | Confirmed | Shipped | Delivered | Cancelled | Reviewed

record order_row =
  o_id :: uuid
  o_user_id :: uuid
  o_farm_id :: uuid
  product_id :: uuid
  quantity :: int
  total_price :: int
  status :: order_status
  tracking_number :: "jstext option"
  carrier :: "jstext option"
  delivery_address :: jstext
  delivery_notes :: "jstext option"
  confirmed_at :: "timestamp option"
  shipped_at :: "timestamp option"
  delivered_at :: "timestamp option"
  cancelled_at :: "timestamp option"
  cancellation_reason :: "string option"
  created_at :: "timestamp option"
  updated_at :: "timestamp option"

record product_row =
  p_id :: uuid
  harvest_date :: date

text \<open>
  A notification and a review are the columns the code inserts; the columns the
  store fills in by default (\<^verbatim>\<open>id\<close>, \<^verbatim>\<open>read\<close>, \<^verbatim>\<open>created_at\<close>) are not represented.
\<close>

record notification =
  n_user_id :: uuid
  title :: string
  message :: string
  n_type :: string
  related_order_id :: "uuid option"

record review_row =
  order_id :: uuid
  r_farm_id :: uuid
  r_user_id :: uuid
  rating :: int
  comment :: jstext

text \<open>\<open>users\<close> holds the ids of \<^verbatim>\<open>auth.users\<close>, which the foreign keys of the migration refer to.\<close>

record store =
  orders :: "order_row list"
  products :: "product_row list"
  notifications :: "notification list"
  reviews :: "review_row list"
  reservations :: "order_row list"
  users :: "uuid list"

text \<open>
  The object literal handed to \<^verbatim>\<open>.update({...})\<close>: a column that the literal does not
  mention is \<^term>\<open>None\<close> and keeps its value.
\<close>

record order_patch =
  set_status :: "order_status option"
  set_confirmed_at :: "timestamp option"
  set_shipped_at :: "timestamp option"
  set_delivered_at :: "timestamp option"
  set_cancelled_at :: "timestamp option"
  set_cancellation_reason :: "string option"
  set_tracking_number :: "jstext option"
  set_carrier :: "jstext option"

definition no_patch :: order_patch where
  "no_patch = \<lparr> set_status = None, set_confirmed_at = None, set_shipped_at = None,
     set_delivered_at = None, set_cancelled_at = None, set_cancellation_reason = None,
     set_tracking_number = None, set_carrier = None \<rparr>"

definition keep :: "'a option \<Rightarrow> 'a option \<Rightarrow> 'a option" where
  "keep new old = (case new of None \<Rightarrow> old | Some v \<Rightarrow> Some v)"

text \<open>\<^verbatim>\<open>{ ...order, ...updates }\<close>: the columns of the patch replace those of the row.\<close>

definition merge_patch :: "order_patch \<Rightarrow> order_row \<Rightarrow> order_row" where
  "merge_patch p r = r
     \<lparr> status := (case set_status p of None \<Rightarrow> status r | Some v \<Rightarrow> v),
       tracking_number := keep (set_tracking_number p) (tracking_number r),
       carrier := keep (set_carrier p) (carrier r),
       confirmed_at := keep (set_confirmed_at p) (confirmed_at r),
       shipped_at := keep (set_shipped_at p) (shipped_at r),
       delivered_at := keep (set_delivered_at p) (delivered_at r),
       cancelled_at := keep (set_cancelled_at p) (cancelled_at r),
       cancellation_reason := keep (set_cancellation_reason p) (cancellation_reason r) \<rparr>"

text \<open>
  \<^verbatim>\<open>supabase.from('orders').update(p).eq('id', i)\<close>: every row whose id is \<open>i\<close> takes the
  patch, and the trigger \<^verbatim>\<open>update_orders_updated_at\<close> (\<^verbatim>\<open>BEFORE UPDATE ... FOR EACH ROW\<close>)
  stamps \<^verbatim>\<open>updated_at\<close> with the store's clock \<open>t\<close>. Other rows are not touched.
\<close>

definition update_row :: "order_patch \<Rightarrow> timestamp \<Rightarrow> order_row \<Rightarrow> order_row" where
  "update_row p t r = (merge_patch p r) \<lparr> updated_at := Some t \<rparr>"

definition update_orders :: "order_patch \<Rightarrow> timestamp \<Rightarrow> uuid \<Rightarrow> store \<Rightarrow> store" where
  "update_orders p t i s =
     s \<lparr> orders := map (\<lambda>r. if o_id r = i then update_row p t r else r) (orders s) \<rparr>"

section \<open>The environment of a run\<close>

text \<open>
  A value that a store call reports as its \<^verbatim>\<open>error\<close>, or that a \<^verbatim>\<open>catch\<close> receives:
  either an instance of \<^verbatim>\<open>Error\<close> or some other object; both carry a \<^verbatim>\<open>message\<close>.
\<close>

datatype js_error = ErrorInstance string | ErrorObject string

fun error_message :: "js_error \<Rightarrow> string" where
  "error_message (ErrorInstance m) = m"
| "error_message (ErrorObject m) = m"

text \<open>
  What the outside world answers during one run. Every store call can fail. Where
  the source reads the call's \<^verbatim>\<open>error\<close> the model branches as the source does;
  where the source discards the result (the inserts into the notifications, the
  look-up and the status update of a review) a failed call has no effect and the
  code goes on as if it had succeeded.
  \<^item> \<open>now\<close>: the reading of \<^verbatim>\<open>new Date()\<close> when the run starts;
  \<^item> \<open>fetch_error\<close>: the \<^verbatim>\<open>error\<close> of the initial select, if any;
  \<^item> \<open>update_error i\<close>: the \<^verbatim>\<open>error\<close> of the update of the row with id \<open>i\<close>, if any;
  \<^item> \<open>update_clock i\<close>: the reading of \<^verbatim>\<open>new Date()\<close> when that update is built;
  \<^item> \<open>db_clock i\<close>: the store's \<^verbatim>\<open>NOW()\<close> when that update runs;
  \<^item> \<open>notify_error n\<close>: the \<^verbatim>\<open>error\<close> of the insert of the notification \<open>n\<close>, if the
    store rejects it for a reason other than the foreign keys of the table;
  \<^item> \<open>lookup_error i\<close>: the \<^verbatim>\<open>error\<close> of the look-up of the review of order \<open>i\<close>, if any;
  \<^item> \<open>insert_error r\<close>: the \<^verbatim>\<open>error\<close> of the insert of the review \<open>r\<close>, if the store
    rejects it for a reason other than the constraints and the policy of the table;
  \<^item> \<open>constraint_error\<close>: the \<^verbatim>\<open>error\<close> the store reports for a violated constraint or
    policy of the table;
  \<^item> \<open>auth_uid\<close>: \<^verbatim>\<open>auth.uid()\<close>, the id of the signed-in user of a page, if any.
\<close>

record world =
  now :: timestamp
  fetch_error :: "js_error option"
  update_error :: "uuid \<Rightarrow> js_error option"
  update_clock :: "uuid \<Rightarrow> timestamp"
  db_clock :: "uuid \<Rightarrow> timestamp"
  notify_error :: "notification \<Rightarrow> js_error option"
  lookup_error :: "uuid \<Rightarrow> js_error option"
  insert_error :: "review_row \<Rightarrow> js_error option"
  constraint_error :: js_error
  auth_uid :: "uuid option"

text \<open>
  The pages talk to the store as the signed-in user, under the row-level policies
  of the migration. The policy of the orders table
  \<^verbatim>\<open>FOR UPDATE USING (auth.uid() = user_id OR auth.uid() = farm_id)\<close> lets an update
  from a page reach only the rows it admits; the others are passed over without
  an error. The sweep handlers use the service-role key, which no policy binds,
  and update with \<^const>\<open>update_orders\<close>.
\<close>

definition may_update :: "world \<Rightarrow> order_row \<Rightarrow> bool" where
  "may_update w r = (auth_uid w = Some (o_user_id r) \<or> auth_uid w = Some (o_farm_id r))"

definition update_own_orders :: "world \<Rightarrow> order_patch \<Rightarrow> timestamp \<Rightarrow> uuid \<Rightarrow> store \<Rightarrow> store" where
  "update_own_orders w p t i s =
     s \<lparr> orders := map (\<lambda>r. if o_id r = i \<and> may_update w r then update_row p t r else r)
                       (orders s) \<rparr>"

text \<open>
  \<^verbatim>\<open>await supabase.from('notifications').insert({...})\<close> against the table of the
  migration: \<^verbatim>\<open>user_id ... NOT NULL REFERENCES auth.users(id)\<close>,
  \<^verbatim>\<open>related_order_id ... REFERENCES public.orders(id)\<close>; any other rejection is the
  world's. The row is appended unless the store rejects the insert, and the caller
  does not look at the result.
\<close>

definition notification_accepted :: "world \<Rightarrow> store \<Rightarrow> notification \<Rightarrow> bool" where
  "notification_accepted w s n =
     (n_user_id n \<in> set (users s) \<and>
      (case related_order_id n of None \<Rightarrow> True | Some i \<Rightarrow> i \<in> set (map o_id (orders s))) \<and>
      notify_error w n = None)"

definition insert_notification :: "world \<Rightarrow> notification \<Rightarrow> store \<Rightarrow> store" where
  "insert_notification w n s =
     (if notification_accepted w s n then s \<lparr> notifications := notifications s @ [n] \<rparr> else s)"

section \<open>HTTP responses of the scheduled handlers\<close>

datatype body = NoBody | SuccessBody bool string | ErrorBody string

record response =
  status_code :: nat
  headers :: "(string \<times> string) list"
  body :: body

definition corsHeaders :: "(string \<times> string) list" where
  "corsHeaders =
     [(''Access-Control-Allow-Origin'', ''*''),
      (''Access-Control-Allow-Headers'', ''authorization, x-client-info, apikey, content-type'')]"

definition json_headers :: "(string \<times> string) list" where
  "json_headers = corsHeaders @ [(''Content-Type'', ''application/json'')]"

text \<open>\<^verbatim>\<open>new Response(null, { headers: corsHeaders })\<close>: the status defaults to 200.\<close>

definition preflight_response :: response where
  "preflight_response = \<lparr> status_code = 200, headers = corsHeaders, body = NoBody \<rparr>"

definition success_response :: "string \<Rightarrow> response" where
  "success_response m = \<lparr> status_code = 200, headers = json_headers, body = SuccessBody True m \<rparr>"

text \<open>\<^verbatim>\<open>error instanceof Error ? error.message : 'Unknown error'\<close>, with status 500.\<close>

fun catch_message :: "js_error \<Rightarrow> string" where
  "catch_message (ErrorInstance m) = m"
| "catch_message (ErrorObject m) = ''Unknown error''"

definition error_response :: "js_error \<Rightarrow> response" where
  "error_response e = \<lparr> status_code = 500, headers = json_headers, body = ErrorBody (catch_message e) \<rparr>"

text \<open>Decimal rendering of a count inside a template literal.\<close>

definition digit_char :: "nat \<Rightarrow> char" where
  "digit_char d = ''0123456789'' ! d"

function show_nat :: "nat \<Rightarrow> string" where
  "show_nat n = (if n < 10 then [digit_char n] else show_nat (n div 10) @ [digit_char (n mod 10)])"
  by pat_completeness auto
termination
  by (relation "measure (\<lambda>n. n)") auto

declare show_nat.simps [simp del]

section \<open>Sweep job: stale pending orders (check-farm-confirm)\<close>

text \<open>
  \<^verbatim>\<open>twoDaysAgo.setHours(twoDaysAgo.getHours() - 48)\<close>. The handler runs with UTC as its
  local zone, where 48 hours are 48 * 3600000 milliseconds.
\<close>

definition two_days_ago :: "timestamp \<Rightarrow> timestamp" where
  "two_days_ago t = t - 48 * 3600000"

text \<open>
  \<^verbatim>\<open>.eq('status', 'pending').lt('created_at', twoDaysAgo.toISOString())\<close>; a row whose
  \<^verbatim>\<open>created_at\<close> is null does not satisfy \<^verbatim>\<open>lt\<close>.
\<close>

definition is_expired :: "timestamp \<Rightarrow> order_row \<Rightarrow> bool" where
  "is_expired t r =
     (status r = Pending \<and> (case created_at r of None \<Rightarrow> False | Some c \<Rightarrow> c < two_days_ago t))"

text \<open>\<^verbatim>\<open>.select('id, user_id, farm_id')\<close>\<close>

definition fetch_expired :: "timestamp \<Rightarrow> store \<Rightarrow> (uuid \<times> uuid \<times> uuid) list" where
  "fetch_expired t s =
     map (\<lambda>r. (o_id r, o_user_id r, o_farm_id r)) (filter (is_expired t) (orders s))"

definition farm_timeout_reason :: string where
  "farm_timeout_reason = ''Farm did not confirm within 48 hours''"

definition expired_patch :: "timestamp \<Rightarrow> order_patch" where
  "expired_patch t = no_patch
     \<lparr> set_status := Some Cancelled,
       set_cancelled_at := Some t,
       set_cancellation_reason := Some farm_timeout_reason \<rparr>"

definition buyer_expired_notification :: "uuid \<Rightarrow> uuid \<Rightarrow> notification" where
  "buyer_expired_notification i u =
     \<lparr> n_user_id = u,
       title = ''Order Cancelled'',
       message = ''Your order was cancelled as the farm did not confirm within 48 hours.'',
       n_type = ''order_cancelled'',
       related_order_id = Some i \<rparr>"

definition farm_expired_notification :: "uuid \<Rightarrow> uuid \<Rightarrow> notification" where
  "farm_expired_notification i f =
     \<lparr> n_user_id = f,
       title = ''Missed Confirmation'',
       message = ''An order was auto-cancelled due to no confirmation within 48 hours.'',
       n_type = ''confirmation_missed'',
       related_order_id = Some i \<rparr>"

text \<open>The \<^verbatim>\<open>for (const order of expiredOrders || [])\<close> loop; an update error is \<^verbatim>\<open>continue\<close>.\<close>

fun cancel_expired :: "world \<Rightarrow> (uuid \<times> uuid \<times> uuid) list \<Rightarrow> store \<Rightarrow> store" where
  "cancel_expired w [] s = s"
| "cancel_expired w ((i, u, f) # rest) s =
     (case update_error w i of
        Some e \<Rightarrow> cancel_expired w rest s
      | None \<Rightarrow>
          cancel_expired w rest
            (insert_notification w (farm_expired_notification i f)
              (insert_notification w (buyer_expired_notification i u)
                (update_orders (expired_patch (update_clock w i)) (db_clock w i) i s))))"

definition expired_message :: "nat \<Rightarrow> string" where
  "expired_message n = ''Cancelled '' @ show_nat n @ '' unconfirmed orders''"

text \<open>The body of the \<^verbatim>\<open>try\<close> with its \<^verbatim>\<open>catch\<close>: the response and the store afterwards.\<close>

definition check_farm_confirm_job :: "world \<Rightarrow> store \<Rightarrow> response \<times> store" where
  "check_farm_confirm_job w s =
     (case fetch_error w of
        Some e \<Rightarrow> (error_response e, s)
      | None \<Rightarrow>
          (let expiredOrders = fetch_expired (now w) s
           in (success_response (expired_message (length expiredOrders)),
               cancel_expired w expiredOrders s)))"

definition check_farm_confirm :: "string \<Rightarrow> world \<Rightarrow> store \<Rightarrow> response \<times> store" where
  "check_farm_confirm req_method w s =
     (if req_method = ''OPTIONS'' then (preflight_response, s) else check_farm_confirm_job w s)"

section \<open>Sweep job: orders past the harvest window (auto-cancel-orders)\<close>

text \<open>
  \<^verbatim>\<open>sevenDaysAgo.setDate(sevenDaysAgo.getDate() - 7)\<close>, then
  \<^verbatim>\<open>sevenDaysAgo.toISOString().split('T')[0]\<close>: the UTC calendar day of that instant.
\<close>

definition seven_days_ago :: "timestamp \<Rightarrow> timestamp" where
  "seven_days_ago t = t - 7 * 86400000"

definition iso_date :: "timestamp \<Rightarrow> date" where
  "iso_date t = t div 86400000"

text \<open>The embedded resource \<^verbatim>\<open>products!inner (harvest_date)\<close>: the product the order links to.\<close>

definition linked_product :: "store \<Rightarrow> order_row \<Rightarrow> product_row option" where
  "linked_product s r = find (\<lambda>p. p_id p = product_id r) (products s)"

text \<open>
  \<^verbatim>\<open>.in('status', ['pending', 'confirmed']).lt('products.harvest_date', ...)\<close>; the inner
  join drops an order without a product.
\<close>

definition is_past_harvest :: "timestamp \<Rightarrow> store \<Rightarrow> order_row \<Rightarrow> bool" where
  "is_past_harvest t s r =
     ((status r = Pending \<or> status r = Confirmed) \<and>
      (case linked_product s r of
         None \<Rightarrow> False
       | Some p \<Rightarrow> harvest_date p < iso_date (seven_days_ago t)))"

definition fetch_past_harvest :: "timestamp \<Rightarrow> store \<Rightarrow> (uuid \<times> uuid) list" where
  "fetch_past_harvest t s =
     map (\<lambda>r. (o_id r, o_user_id r)) (filter (is_past_harvest t s) (orders s))"

definition harvest_window_reason :: string where
  "harvest_window_reason = ''Auto-cancelled: Exceeded 7 days after harvest date''"

definition past_harvest_patch :: "timestamp \<Rightarrow> order_patch" where
  "past_harvest_patch t = no_patch
     \<lparr> set_status := Some Cancelled,
       set_cancelled_at := Some t,
       set_cancellation_reason := Some harvest_window_reason \<rparr>"

definition buyer_window_notification :: "uuid \<Rightarrow> uuid \<Rightarrow> notification" where
  "buyer_window_notification i u =
     \<lparr> n_user_id = u,
       title = ''Order Cancelled'',
       message = ''Your order was automatically cancelled as it exceeded the pickup window.'',
       n_type = ''order_cancelled'',
       related_order_id = Some i \<rparr>"

fun cancel_past_harvest :: "world \<Rightarrow> (uuid \<times> uuid) list \<Rightarrow> store \<Rightarrow> store" where
  "cancel_past_harvest w [] s = s"
| "cancel_past_harvest w ((i, u) # rest) s =
     (case update_error w i of
        Some e \<Rightarrow> cancel_past_harvest w rest s
      | None \<Rightarrow>
          cancel_past_harvest w rest
            (insert_notification w (buyer_window_notification i u)
              (update_orders (past_harvest_patch (update_clock w i)) (db_clock w i) i s)))"

definition window_message :: "nat \<Rightarrow> string" where
  "window_message n = ''Cancelled '' @ show_nat n @ '' orders''"

definition auto_cancel_orders_job :: "world \<Rightarrow> store \<Rightarrow> response \<times> store" where
  "auto_cancel_orders_job w s =
     (case fetch_error w of
        Some e \<Rightarrow> (error_response e, s)
      | None \<Rightarrow>
          (let ordersToCancel = fetch_past_harvest (now w) s
           in (success_response (window_message (length ordersToCancel)),
               cancel_past_harvest w ordersToCancel s)))"

definition auto_cancel_orders :: "string \<Rightarrow> world \<Rightarrow> store \<Rightarrow> response \<times> store" where
  "auto_cancel_orders req_method w s =
     (if req_method = ''OPTIONS'' then (preflight_response, s) else auto_cancel_orders_job w s)"

section \<open>The properties of the specification, in its own words\<close>

text \<open>
  The specification's two predicates, written from its sentences so that the
  filters of the code can be compared with them: an order is stale when it is
  pending and its age exceeds 48 hours; it is past its harvest window when it is
  pending or confirmed and the date of the run is more than 7 days after the
  harvest date of its product.
\<close>

definition spec_stale_pending :: "timestamp \<Rightarrow> order_row \<Rightarrow> bool" where
  "spec_stale_pending t r =
     (status r = Pending \<and>
      (case created_at r of None \<Rightarrow> False | Some c \<Rightarrow> t - c > 48 * 60 * 60 * 1000))"

definition spec_past_harvest :: "timestamp \<Rightarrow> store \<Rightarrow> order_row \<Rightarrow> bool" where
  "spec_past_harvest t s r =
     (status r \<in> {Pending, Confirmed} \<and>
      (case linked_product s r of
         None \<Rightarrow> False
       | Some p \<Rightarrow> iso_date t - harvest_date p > 7))"

text \<open>The notifications a run has emitted: the rows it appended to the table.\<close>

definition emitted :: "store \<Rightarrow> store \<Rightarrow> notification list" where
  "emitted s s' = drop (length (notifications s)) (notifications s')"

definition about_order :: "uuid \<Rightarrow> notification list \<Rightarrow> notification list" where
  "about_order i ns = filter (\<lambda>n. related_order_id n = Some i) ns"

definition order_by_id :: "store \<Rightarrow> uuid \<Rightarrow> order_row option" where
  "order_by_id s i = find (\<lambda>r. o_id r = i) (orders s)"

text \<open>The row as a sweep leaves it once its update has gone through.\<close>

definition expired_row :: "world \<Rightarrow> order_row \<Rightarrow> order_row" where
  "expired_row w r = update_row (expired_patch (update_clock w (o_id r))) (db_clock w (o_id r)) r"

definition past_harvest_row :: "world \<Rightarrow> order_row \<Rightarrow> order_row" where
  "past_harvest_row w r =
     update_row (past_harvest_patch (update_clock w (o_id r))) (db_clock w (o_id r)) r"

section \<open>Page state and toasts\<close>

datatype toast = ToastError string | ToastSuccess string

text \<open>
  What one handler call of a page leaves behind: the component state, the store,
  the toast it showed, and the write request it sent to the \<^verbatim>\<open>orders\<close> or
  \<^verbatim>\<open>reservations\<close> table (\<^term>\<open>None\<close> when it sent none).
\<close>

record 'st outcome =
  page :: 'st
  stored :: store
  shown :: "toast option"
  sent :: "(uuid \<times> order_patch) option"

text \<open>
  \<^verbatim>\<open>String.prototype.trim\<close> removes the white space and line terminators of
  ECMAScript from both ends; \<^verbatim>\<open>!s\<close> holds of the empty string only.
\<close>

definition is_js_whitespace :: "nat \<Rightarrow> bool" where
  "is_js_whitespace c =
     (c \<in> set [0x9, 0xA, 0xB, 0xC, 0xD, 0x20, 0xA0, 0x1680, 0x2028, 0x2029, 0x202F, 0x205F,
                0x3000, 0xFEFF]
      \<or> (0x2000 \<le> c \<and> c \<le> 0x200A))"

definition trim :: "jstext \<Rightarrow> jstext" where
  "trim t = rev (dropWhile is_js_whitespace (rev (dropWhile is_js_whitespace t)))"

fun status_name :: "order_status \<Rightarrow> string" where
  "status_name Pending = ''pending''"
| "status_name Confirmed = ''confirmed''"
| "status_name Shipped = ''shipped''"
| "status_name Delivered = ''delivered''"
| "status_name Cancelled = ''cancelled''"
| "status_name Reviewed = ''reviewed''"

section \<open>Farm page OrderDetail: updateStatus\<close>

record order_detail =
  order_st :: "order_row option"
  trackingNumber :: jstext
  updating :: bool

text \<open>
  The \<^verbatim>\<open>updates\<close> object once the branch of \<^verbatim>\<open>newStatus\<close> has filled it in;
  \<^term>\<open>None\<close> is the \<^verbatim>\<open>return\<close> inside the shipped branch.
\<close>

definition shipped_patch :: "timestamp \<Rightarrow> jstext \<Rightarrow> order_patch" where
  "shipped_patch t tn =
     no_patch \<lparr> set_status := Some Shipped, set_shipped_at := Some t,
                set_tracking_number := Some (trim tn) \<rparr>"

definition status_updates :: "order_status \<Rightarrow> timestamp \<Rightarrow> jstext \<Rightarrow> order_patch option" where
  "status_updates newStatus t tn =
     (if newStatus = Confirmed then
        Some (no_patch \<lparr> set_status := Some newStatus, set_confirmed_at := Some t \<rparr>)
      else if newStatus = Shipped then
        (if trim tn = [] then None else Some (shipped_patch t tn))
      else if newStatus = Delivered then
        Some (no_patch \<lparr> set_status := Some newStatus, set_delivered_at := Some t \<rparr>)
      else Some (no_patch \<lparr> set_status := Some newStatus \<rparr>))"

text \<open>\<^verbatim>\<open>error instanceof Error ? error.message : "Failed to update order"\<close>\<close>

fun update_failure_text :: "js_error \<Rightarrow> string" where
  "update_failure_text (ErrorInstance m) = m"
| "update_failure_text (ErrorObject m) = ''Failed to update order''"

definition updateStatus :: "world \<Rightarrow> order_status \<Rightarrow> order_detail \<Rightarrow> store \<Rightarrow> order_detail outcome" where
  "updateStatus w newStatus st s =
     (case order_st st of
        None \<Rightarrow> \<lparr> page = st, stored = s, shown = None, sent = None \<rparr>
      | Some order \<Rightarrow>
          (case status_updates newStatus (update_clock w (o_id order)) (trackingNumber st) of
             None \<Rightarrow>
               \<lparr> page = st \<lparr> updating := False \<rparr>, stored = s,
                 shown = Some (ToastError ''Please enter a tracking number''), sent = None \<rparr>
           | Some updates \<Rightarrow>
               (case update_error w (o_id order) of
                  Some e \<Rightarrow>
                    \<lparr> page = st \<lparr> updating := False \<rparr>, stored = s,
                      shown = Some (ToastError (update_failure_text e)),
                      sent = Some (o_id order, updates) \<rparr>
                | None \<Rightarrow>
                    \<lparr> page = st \<lparr> order_st := Some (merge_patch updates order), updating := False \<rparr>,
                      stored = update_own_orders w updates (db_clock w (o_id order)) (o_id order) s,
                      shown = Some (ToastSuccess (''Order '' @ status_name newStatus)),
                      sent = Some (o_id order, updates) \<rparr>)))"

section \<open>Farm page FarmOrders: the ship modal\<close>

record farm_orders =
  shippingId :: "uuid option"
  tracking :: jstext
  carrier_st :: jstext

text \<open>\<^verbatim>\<open>.update({ status, ...extra })\<close>: a status inside \<^verbatim>\<open>extra\<close> would replace the argument.\<close>

definition updateOrder :: "world \<Rightarrow> uuid \<Rightarrow> order_status \<Rightarrow> order_patch \<Rightarrow> farm_orders \<Rightarrow> store \<Rightarrow> farm_orders outcome" where
  "updateOrder w i st_new extra st s =
     (let updates = extra \<lparr> set_status := keep (set_status extra) (Some st_new) \<rparr>
      in case update_error w i of
           Some e \<Rightarrow>
             \<lparr> page = st, stored = s, shown = Some (ToastError (error_message e)),
               sent = Some (i, updates) \<rparr>
         | None \<Rightarrow>
             \<lparr> page = st, stored = update_own_orders w updates (db_clock w i) i s, shown = None,
               sent = Some (i, updates) \<rparr>)"

text \<open>
  A click on \<^verbatim>\<open>Confirm Shipment\<close>. The modal exists only while \<^verbatim>\<open>shippingId\<close> is set, and
  the button is \<^verbatim>\<open>disabled={!carrier.trim() || !tracking.trim()}\<close>: a disabled button
  does not run its handler.
\<close>

definition confirm_shipment_click :: "world \<Rightarrow> farm_orders \<Rightarrow> store \<Rightarrow> farm_orders outcome" where
  "confirm_shipment_click w st s =
     (case shippingId st of
        None \<Rightarrow> \<lparr> page = st, stored = s, shown = None, sent = None \<rparr>
      | Some i \<Rightarrow>
          if trim (carrier_st st) = [] \<or> trim (tracking st) = [] then
            \<lparr> page = st, stored = s, shown = None, sent = None \<rparr>
          else
            (let r = updateOrder w i Shipped
                       (no_patch \<lparr> set_carrier := Some (trim (carrier_st st)),
                                  set_tracking_number := Some (trim (tracking st)),
                                  set_shipped_at := Some (update_clock w i) \<rparr>) st s
             in r \<lparr> page := \<lparr> shippingId = None, tracking = [], carrier_st = [] \<rparr> \<rparr>))"

section \<open>Farm page over the reservations table: updateStatus and its buttons\<close>

text \<open>
  Modelled from the spec: the declaration of the \<^verbatim>\<open>reservations\<close> table is not among the
  sources. The specification says a reservation is collapsed into the order in
  this flow, and the page reads and writes the order's lifecycle columns on it, so
  a reservation row has the columns of an order row. No trigger is known for the
  table, so an update changes the columns of the patch only.
\<close>

definition update_reservations :: "order_patch \<Rightarrow> uuid \<Rightarrow> store \<Rightarrow> store" where
  "update_reservations p i s =
     s \<lparr> reservations := map (\<lambda>r. if o_id r = i then merge_patch p r else r) (reservations s) \<rparr>"

definition updateStatus_reservation :: "world \<Rightarrow> uuid \<Rightarrow> order_status \<Rightarrow> order_patch \<Rightarrow> 'st \<Rightarrow> store \<Rightarrow> 'st outcome" where
  "updateStatus_reservation w i st_new extra st s =
     (let updates = extra \<lparr> set_status := keep (set_status extra) (Some st_new) \<rparr>
      in case update_error w i of
           Some e \<Rightarrow>
             \<lparr> page = st, stored = s, shown = Some (ToastError (error_message e)),
               sent = Some (i, updates) \<rparr>
         | None \<Rightarrow>
             \<lparr> page = st, stored = update_reservations updates i s,
               shown = Some (ToastSuccess ''Updated''), sent = Some (i, updates) \<rparr>)"

text \<open>The destructive button of the pending tab: \<^verbatim>\<open>updateStatus(o.id, "cancelled", { cancelled_at: new Date() })\<close>.\<close>

definition cancel_click :: "world \<Rightarrow> order_row \<Rightarrow> store \<Rightarrow> unit outcome" where
  "cancel_click w r s =
     updateStatus_reservation w (o_id r) Cancelled
       (no_patch \<lparr> set_cancelled_at := Some (update_clock w (o_id r)) \<rparr>) () s"

text \<open>
  The ship modal of this page: its button is \<^verbatim>\<open>disabled={!tracking}\<close> and it sends the
  field as typed.
\<close>

record reservation_modal =
  shippingId_r :: "uuid option"
  tracking_r :: jstext

definition confirm_click_reservation :: "world \<Rightarrow> reservation_modal \<Rightarrow> store \<Rightarrow> reservation_modal outcome" where
  "confirm_click_reservation w st s =
     (case shippingId_r st of
        None \<Rightarrow> \<lparr> page = st, stored = s, shown = None, sent = None \<rparr>
      | Some i \<Rightarrow>
          if tracking_r st = [] then \<lparr> page = st, stored = s, shown = None, sent = None \<rparr>
          else
            updateStatus_reservation w i Shipped
              (no_patch \<lparr> set_tracking_number := Some (tracking_r st),
                         set_shipped_at := Some (update_clock w i) \<rparr>)
              \<lparr> shippingId_r = None, tracking_r = [] \<rparr> s)"

section \<open>Buyer page UserOrders: submitReview\<close>

record user_orders =
  selectedOrder :: "order_row option"
  rating_st :: int
  comment_st :: jstext
  openReview :: bool

text \<open>The two Thai toast texts of \<^verbatim>\<open>submitReview\<close>, as the UTF-8 bytes of the literals.\<close>

definition already_reviewed_text :: string where
  "already_reviewed_text =
     [CHR 0xE0, CHR 0xB8, CHR 0xAD, CHR 0xE0, CHR 0xB8, CHR 0xAD, CHR 0xE0, CHR 0xB9, CHR 0x80,
      CHR 0xE0, CHR 0xB8, CHR 0x94, CHR 0xE0, CHR 0xB8, CHR 0xAD, CHR 0xE0, CHR 0xB8, CHR 0xA3,
      CHR 0xE0, CHR 0xB9, CHR 0x8C, CHR 0xE0, CHR 0xB8, CHR 0x99, CHR 0xE0, CHR 0xB8, CHR 0xB5,
      CHR 0xE0, CHR 0xB9, CHR 0x89, CHR 0xE0, CHR 0xB8, CHR 0xA3, CHR 0xE0, CHR 0xB8, CHR 0xB5,
      CHR 0xE0, CHR 0xB8, CHR 0xA7, CHR 0xE0, CHR 0xB8, CHR 0xB4, CHR 0xE0, CHR 0xB8, CHR 0xA7,
      CHR 0xE0, CHR 0xB9, CHR 0x84, CHR 0xE0, CHR 0xB8, CHR 0x9B, CHR 0xE0, CHR 0xB9, CHR 0x81,
      CHR 0xE0, CHR 0xB8, CHR 0xA5, CHR 0xE0, CHR 0xB9, CHR 0x89, CHR 0xE0, CHR 0xB8, CHR 0xA7]"

definition thanks_text :: string where
  "thanks_text =
     [CHR 0xE0, CHR 0xB8, CHR 0x82, CHR 0xE0, CHR 0xB8, CHR 0xAD, CHR 0xE0, CHR 0xB8, CHR 0x9A,
      CHR 0xE0, CHR 0xB8, CHR 0x84, CHR 0xE0, CHR 0xB8, CHR 0xB8, CHR 0xE0, CHR 0xB8, CHR 0x93,
      CHR 0xE0, CHR 0xB8, CHR 0xAA, CHR 0xE0, CHR 0xB8, CHR 0xB3, CHR 0xE0, CHR 0xB8, CHR 0xAB,
      CHR 0xE0, CHR 0xB8, CHR 0xA3, CHR 0xE0, CHR 0xB8, CHR 0xB1, CHR 0xE0, CHR 0xB8, CHR 0x9A,
      CHR 0xE0, CHR 0xB8, CHR 0xA3, CHR 0xE0, CHR 0xB8, CHR 0xB5, CHR 0xE0, CHR 0xB8, CHR 0xA7,
      CHR 0xE0, CHR 0xB8, CHR 0xB4, CHR 0xE0, CHR 0xB8, CHR 0xA7, CHR 0x20, CHR 0xF0, CHR 0x9F,
      CHR 0x8C, CHR 0x9F]"

text \<open>
  \<^verbatim>\<open>supabase.from("reviews").insert(row)\<close> against the table of the migration, in the
  order of its declaration: \<^verbatim>\<open>order_id ... REFERENCES public.orders(id) ... UNIQUE\<close>,
  \<^verbatim>\<open>user_id ... REFERENCES auth.users(id)\<close>, \<^verbatim>\<open>farm_id ... REFERENCES auth.users(id)\<close>,
  \<^verbatim>\<open>CHECK (rating >= 1 AND rating <= 5)\<close>, and the policy
  \<^verbatim>\<open>FOR INSERT WITH CHECK (auth.uid() = user_id)\<close>. Any other rejection (the transport,
  a later migration) is the world's.
\<close>

definition insert_review :: "world \<Rightarrow> review_row \<Rightarrow> store \<Rightarrow> js_error + store" where
  "insert_review w row s =
     (if order_id row \<notin> set (map o_id (orders s)) then Inl (constraint_error w)
      else if order_id row \<in> set (map order_id (reviews s)) then Inl (constraint_error w)
      else if r_user_id row \<notin> set (users s) then Inl (constraint_error w)
      else if r_farm_id row \<notin> set (users s) then Inl (constraint_error w)
      else if rating row < 1 then Inl (constraint_error w)
      else if 5 < rating row then Inl (constraint_error w)
      else if auth_uid w \<noteq> Some (r_user_id row) then Inl (constraint_error w)
      else case insert_error w row of
             Some e \<Rightarrow> Inl e
           | None \<Rightarrow> Inr (s \<lparr> reviews := reviews s @ [row] \<rparr>))"

text \<open>
  \<^verbatim>\<open>const { data: existing } = await ... .select("id").eq("order_id", selectedOrder.id).maybeSingle()\<close>:
  the row when exactly one matches; \<^verbatim>\<open>data\<close> is null when none matches, when several
  do, and when the call fails. The \<^verbatim>\<open>error\<close> is not read. The policy of the table
  \<^verbatim>\<open>FOR SELECT USING (true)\<close> shows every row to every user.
\<close>

definition existing_review :: "world \<Rightarrow> store \<Rightarrow> uuid \<Rightarrow> review_row option" where
  "existing_review w s i =
     (case lookup_error w i of
        Some e \<Rightarrow> None
      | None \<Rightarrow>
          (case filter (\<lambda>r. order_id r = i) (reviews s) of
             [x] \<Rightarrow> Some x
           | _ \<Rightarrow> None))"

text \<open>
  \<^verbatim>\<open>await supabase.from("orders").update({ status: "reviewed" }).eq("id", selectedOrder.id)\<close>:
  the result is discarded, so a rejected update leaves the orders as they are and
  the code goes on.
\<close>

definition mark_reviewed :: "world \<Rightarrow> uuid \<Rightarrow> store \<Rightarrow> store" where
  "mark_reviewed w i s =
     (case update_error w i of
        Some e \<Rightarrow> s
      | None \<Rightarrow> update_own_orders w (no_patch \<lparr> set_status := Some Reviewed \<rparr>) (db_clock w i) i s)"

text \<open>The object literal of the insert: all three ids are \<^verbatim>\<open>selectedOrder.id\<close>.\<close>

definition review_payload :: "user_orders \<Rightarrow> order_row \<Rightarrow> review_row" where
  "review_payload st sel =
     \<lparr> order_id = o_id sel, r_farm_id = o_id sel, r_user_id = o_id sel,
       rating = rating_st st, comment = comment_st st \<rparr>"

definition submitReview :: "world \<Rightarrow> user_orders \<Rightarrow> store \<Rightarrow> user_orders outcome" where
  "submitReview w st s =
     (case selectedOrder st of
        None \<Rightarrow> \<lparr> page = st, stored = s, shown = None, sent = None \<rparr>
      | Some sel \<Rightarrow>
          (case existing_review w s (o_id sel) of
             Some existing \<Rightarrow>
               \<lparr> page = st, stored = s, shown = Some (ToastError already_reviewed_text), sent = None \<rparr>
           | None \<Rightarrow>
               (case insert_review w (review_payload st sel) s of
                  Inl e \<Rightarrow>
                    \<lparr> page = st, stored = s, shown = Some (ToastError (error_message e)), sent = None \<rparr>
                | Inr s1 \<Rightarrow>
                    \<lparr> page = \<lparr> selectedOrder = None, rating_st = 5, comment_st = [], openReview = False \<rparr>,
                      stored = mark_reviewed w (o_id sel) s1,
                      shown = Some (ToastSuccess thanks_text),
                      sent = Some (o_id sel, no_patch \<lparr> set_status := Some Reviewed \<rparr>) \<rparr>)))"

section \<open>Auxiliary notions for the statements\<close>

text \<open>The ids among \<open>is\<close> whose update the world lets through.\<close>

definition updated_ids :: "world \<Rightarrow> uuid list \<Rightarrow> uuid list" where
  "updated_ids w is = filter (\<lambda>i. update_error w i = None) is"

text \<open>Of the notifications a run tries to insert, those the store takes.\<close>

definition accepted :: "world \<Rightarrow> store \<Rightarrow> notification list \<Rightarrow> notification list" where
  "accepted w s ns = filter (notification_accepted w s) ns"

text \<open>What one pass of each loop appends to the notifications of a run that started in \<open>s\<close>.\<close>

definition expired_notices :: "world \<Rightarrow> store \<Rightarrow> uuid \<times> uuid \<times> uuid \<Rightarrow> notification list" where
  "expired_notices w s row =
     (case row of (i, u, f) \<Rightarrow>
        (case update_error w i of
           Some e \<Rightarrow> []
         | None \<Rightarrow> accepted w s [buyer_expired_notification i u, farm_expired_notification i f]))"

definition window_notices :: "world \<Rightarrow> store \<Rightarrow> uuid \<times> uuid \<Rightarrow> notification list" where
  "window_notices w s row =
     (case row of (i, u) \<Rightarrow>
        (case update_error w i of
           Some e \<Rightarrow> []
         | None \<Rightarrow> accepted w s [buyer_window_notification i u]))"

text \<open>The specification's "empty or whitespace-only" text.\<close>

definition spec_blank :: "jstext \<Rightarrow> bool" where
  "spec_blank t = list_all is_js_whitespace t"

definition cancelled_orders :: "store \<Rightarrow> order_row list" where
  "cancelled_orders s = filter (\<lambda>r. status r = Cancelled) (orders s)"

section \<open>Example data\<close>

text \<open>
  One pending order placed at the epoch for a product harvested on day 0, looked at
  thirty days later.
\<close>

definition order1 :: order_row where
  "order1 =
     \<lparr> o_id = ''o1'', o_user_id = ''u1'', o_farm_id = ''f1'', product_id = ''p1'',
       quantity = 2, total_price = 5000, status = Pending, tracking_number = None,
       carrier = None, delivery_address = [], delivery_notes = None, confirmed_at = None,
       shipped_at = None, delivered_at = None, cancelled_at = None,
       cancellation_reason = None, created_at = Some 0, updated_at = Some 0 \<rparr>"

definition product1 :: product_row where
  "product1 = \<lparr> p_id = ''p1'', harvest_date = 0 \<rparr>"

definition store1 :: store where
  "store1 = \<lparr> orders = [order1], products = [product1], notifications = [], reviews = [],
              reservations = [order1], users = [''u1'', ''f1''] \<rparr>"

text \<open>
  A world in which no call fails and the buyer \<^verbatim>\<open>u1\<close> is signed in, and worlds
  that differ from it in one kind of call.
\<close>

definition calm_world :: world where
  "calm_world =
     \<lparr> now = 2592000000, fetch_error = None, update_error = (\<lambda>i. None),
       update_clock = (\<lambda>i. 2592000001), db_clock = (\<lambda>i. 2592000002),
       notify_error = (\<lambda>n. None), lookup_error = (\<lambda>i. None),
       insert_error = (\<lambda>r. None), constraint_error = ErrorObject ''constraint'',
       auth_uid = Some ''u1'' \<rparr>"

definition update_failing_world :: world where
  "update_failing_world = calm_world \<lparr> update_error := (\<lambda>i. Some (ErrorObject ''timeout'')) \<rparr>"

definition fetch_failing_world :: world where
  "fetch_failing_world = calm_world \<lparr> fetch_error := Some (ErrorObject ''connection refused'') \<rparr>"

definition notify_failing_world :: world where
  "notify_failing_world = calm_world \<lparr> notify_error := (\<lambda>n. Some (ErrorObject ''timeout'')) \<rparr>"

definition lookup_failing_world :: world where
  "lookup_failing_world = calm_world \<lparr> lookup_error := (\<lambda>i. Some (ErrorObject ''timeout'')) \<rparr>"

text \<open>A second stale order of another buyer, and a world that rejects the update of the first only.\<close>

definition order2 :: order_row where
  "order2 = order1 \<lparr> o_id := ''o2'', o_user_id := ''u2'' \<rparr>"

definition store2 :: store where
  "store2 = store1 \<lparr> orders := [order1, order2], users := [''u1'', ''u2'', ''f1''] \<rparr>"

definition first_update_failing_world :: world where
  "first_update_failing_world =
     calm_world \<lparr> update_error := (\<lambda>i. if i = ''o1'' then Some (ErrorObject ''timeout'') else None) \<rparr>"

text \<open>
  Page states of the farm: a tracking field holding a space and a tab, one holding
  \<^verbatim>\<open>" TH1 "\<close>, and a ship modal whose tracking field holds one space.
\<close>

definition blank_detail :: order_detail where
  "blank_detail = \<lparr> order_st = Some order1, trackingNumber = [0x20, 0x9], updating = False \<rparr>"

definition filled_detail :: order_detail where
  "filled_detail =
     \<lparr> order_st = Some order1, trackingNumber = [0x20, 0x54, 0x48, 0x31, 0x20], updating = False \<rparr>"

definition blank_modal :: farm_orders where
  "blank_modal = \<lparr> shippingId = Some ''o1'', tracking = [0x20], carrier_st = [0x4B] \<rparr>"

text \<open>
  The farm page over the reservations table: a confirmed reservation and the ship
  modal with a tracking field of one space.
\<close>

definition confirmed1 :: order_row where
  "confirmed1 = order1 \<lparr> status := Confirmed \<rparr>"

definition store4 :: store where
  "store4 = store1 \<lparr> reservations := [confirmed1] \<rparr>"

definition space_modal :: reservation_modal where
  "space_modal = \<lparr> shippingId_r = Some ''o1'', tracking_r = [0x20] \<rparr>"

text \<open>
  The buyer's page after an order has been delivered, with four stars and the
  comment \<^verbatim>\<open>OK\<close>. The review row carries the order's id as its \<^verbatim>\<open>user_id\<close> and
  \<^verbatim>\<open>farm_id\<close>, so the foreign keys and the insert policy let it through only for an
  order whose id is also the id of the signed-in user: the delivered order here
  has the id \<^verbatim>\<open>u1\<close> of its buyer.
\<close>

definition delivered1 :: order_row where
  "delivered1 = order1 \<lparr> o_id := ''u1'', status := Delivered \<rparr>"

definition store3 :: store where
  "store3 = store1 \<lparr> orders := [delivered1] \<rparr>"

definition review_page :: user_orders where
  "review_page =
     \<lparr> selectedOrder = Some delivered1, rating_st = 4, comment_st = [0x4F, 0x4B], openReview = True \<rparr>"


section \<open>The filters of the code are the predicates of the specification\<close>

lemma is_expired_spec: "is_expired t r = spec_stale_pending t r"
  by (auto simp: is_expired_def spec_stale_pending_def two_days_ago_def split: option.splits)

lemma div_shift: "d \<noteq> 0 \<Longrightarrow> (t - k * d) div d = t div d - (k::int)"
proof -
  assume d: "d \<noteq> 0"
  have "(t - k * d) div d = (t + (- k) * d) div d" by simp
  also have "\<dots> = (- k) + t div d" using d by (rule div_mult_self1)
  finally show ?thesis by simp
qed

lemma iso_date_seven_days_ago: "iso_date (seven_days_ago t) = iso_date t - 7"
  unfolding iso_date_def seven_days_ago_def by (rule div_shift) simp

lemma is_past_harvest_spec: "is_past_harvest t s r = spec_past_harvest t s r"
  by (auto simp: is_past_harvest_def spec_past_harvest_def iso_date_seven_days_ago split: option.splits)

section \<open>Rows after an update\<close>

lemma o_id_update_row [simp]: "o_id (update_row p t r) = o_id r"
  by (simp add: update_row_def merge_patch_def)

lemma product_id_update_row [simp]: "product_id (update_row p t r) = product_id r"
  by (simp add: update_row_def merge_patch_def)

lemma o_id_expired_row [simp]: "o_id (expired_row w r) = o_id r"
  by (simp add: expired_row_def)

lemma o_id_past_harvest_row [simp]: "o_id (past_harvest_row w r) = o_id r"
  by (simp add: past_harvest_row_def)

lemma expired_row_twice [simp]: "expired_row w (expired_row w r) = expired_row w r"
  by (simp add: expired_row_def update_row_def merge_patch_def expired_patch_def no_patch_def keep_def)

lemma past_harvest_row_twice [simp]: "past_harvest_row w (past_harvest_row w r) = past_harvest_row w r"
  by (simp add: past_harvest_row_def update_row_def merge_patch_def past_harvest_patch_def no_patch_def keep_def)

lemma expired_row_eq:
  "expired_row w r = r \<lparr> status := Cancelled,
       cancelled_at := Some (update_clock w (o_id r)),
       cancellation_reason := Some farm_timeout_reason,
       updated_at := Some (db_clock w (o_id r)) \<rparr>"
  by (simp add: expired_row_def update_row_def merge_patch_def expired_patch_def no_patch_def keep_def)

lemma past_harvest_row_eq:
  "past_harvest_row w r = r \<lparr> status := Cancelled,
       cancelled_at := Some (update_clock w (o_id r)),
       cancellation_reason := Some harvest_window_reason,
       updated_at := Some (db_clock w (o_id r)) \<rparr>"
  by (simp add: past_harvest_row_def update_row_def merge_patch_def past_harvest_patch_def no_patch_def keep_def)

lemma status_expired_row [simp]: "status (expired_row w r) = Cancelled"
  by (simp add: expired_row_eq)

lemma status_past_harvest_row [simp]: "status (past_harvest_row w r) = Cancelled"
  by (simp add: past_harvest_row_eq)

lemma product_id_expired_row [simp]: "product_id (expired_row w r) = product_id r"
  by (simp add: expired_row_eq)

lemma product_id_past_harvest_row [simp]: "product_id (past_harvest_row w r) = product_id r"
  by (simp add: past_harvest_row_eq)

section \<open>Tables after a store call\<close>

lemma orders_insert_notification [simp]: "orders (insert_notification w n s) = orders s"
  by (simp add: insert_notification_def)

lemma products_insert_notification [simp]: "products (insert_notification w n s) = products s"
  by (simp add: insert_notification_def)

lemma users_insert_notification [simp]: "users (insert_notification w n s) = users s"
  by (simp add: insert_notification_def)

lemma notifications_insert_notification [simp]:
  "notifications (insert_notification w n s) = notifications s @ accepted w s [n]"
  by (simp add: insert_notification_def accepted_def)

lemma notifications_update_orders [simp]: "notifications (update_orders p t i s) = notifications s"
  by (simp add: update_orders_def)

lemma products_update_orders [simp]: "products (update_orders p t i s) = products s"
  by (simp add: update_orders_def)

lemma users_update_orders [simp]: "users (update_orders p t i s) = users s"
  by (simp add: update_orders_def)

lemma ids_update_orders [simp]: "map o_id (orders (update_orders p t i s)) = map o_id (orders s)"
  by (simp add: update_orders_def comp_def if_distrib [of o_id])

text \<open>
  Neither an update of the orders nor an insert into the notifications changes
  which notifications the foreign keys admit.
\<close>

lemma notification_accepted_update_orders [simp]:
  "notification_accepted w (update_orders p t i s) = notification_accepted w s"
  by (rule ext) (simp only: notification_accepted_def ids_update_orders users_update_orders)

lemma notification_accepted_insert_notification [simp]:
  "notification_accepted w (insert_notification w' n s) = notification_accepted w s"
  by (rule ext)
     (simp only: notification_accepted_def orders_insert_notification users_insert_notification)

lemma accepted_after [simp]:
  "accepted w (update_orders p t i s) = accepted w s"
  "accepted w (insert_notification w' n s) = accepted w s"
  by (rule ext, simp add: accepted_def)+

lemma expired_notices_after [simp]:
  "expired_notices w (update_orders p t i s) = expired_notices w s"
  "expired_notices w (insert_notification w' n s) = expired_notices w s"
  by (rule ext, simp only: expired_notices_def accepted_after)+

lemma window_notices_after [simp]:
  "window_notices w (update_orders p t i s) = window_notices w s"
  "window_notices w (insert_notification w' n s) = window_notices w s"
  by (rule ext, simp only: window_notices_def accepted_after)+

lemma accepted_append: "accepted w s [a] @ accepted w s [b] = accepted w s [a, b]"
  by (simp add: accepted_def)

lemma orders_update_expired:
  "orders (update_orders (expired_patch (update_clock w i)) (db_clock w i) i s) =
     map (\<lambda>r. if o_id r = i then expired_row w r else r) (orders s)"
  by (simp add: update_orders_def expired_row_def cong: if_cong)

lemma orders_update_past_harvest:
  "orders (update_orders (past_harvest_patch (update_clock w i)) (db_clock w i) i s) =
     map (\<lambda>r. if o_id r = i then past_harvest_row w r else r) (orders s)"
  by (simp add: update_orders_def past_harvest_row_def cong: if_cong)

section \<open>The loops in closed form\<close>

lemma cancel_expired_orders:
  "orders (cancel_expired w rows s) =
     map (\<lambda>r. if o_id r \<in> set (updated_ids w (map fst rows)) then expired_row w r else r) (orders s)"
proof (induction rows arbitrary: s)
  case Nil
  show ?case by (simp add: updated_ids_def)
next
  case (Cons row rows)
  obtain i u f where row: "row = (i, u, f)" by (cases row) auto
  show ?case
  proof (cases "update_error w i")
    case None
    have "orders (cancel_expired w (row # rows) s) =
            map (\<lambda>r. if o_id r \<in> set (updated_ids w (map fst rows)) then expired_row w r else r)
              (map (\<lambda>r. if o_id r = i then expired_row w r else r) (orders s))"
      unfolding row using None by (simp add: Cons.IH orders_update_expired)
    also have "\<dots> = map (\<lambda>r. if o_id r \<in> set (updated_ids w (map fst (row # rows))) then expired_row w r else r) (orders s)"
      unfolding row using None by (simp add: updated_ids_def)
    finally show ?thesis .
  next
    case (Some e)
    then show ?thesis
      unfolding row by (simp add: Cons.IH updated_ids_def)
  qed
qed

lemma cancel_past_harvest_orders:
  "orders (cancel_past_harvest w rows s) =
     map (\<lambda>r. if o_id r \<in> set (updated_ids w (map fst rows)) then past_harvest_row w r else r) (orders s)"
proof (induction rows arbitrary: s)
  case Nil
  show ?case by (simp add: updated_ids_def)
next
  case (Cons row rows)
  obtain i u where row: "row = (i, u)" by (cases row) auto
  show ?case
  proof (cases "update_error w i")
    case None
    have "orders (cancel_past_harvest w (row # rows) s) =
            map (\<lambda>r. if o_id r \<in> set (updated_ids w (map fst rows)) then past_harvest_row w r else r)
              (map (\<lambda>r. if o_id r = i then past_harvest_row w r else r) (orders s))"
      unfolding row using None by (simp add: Cons.IH orders_update_past_harvest)
    also have "\<dots> = map (\<lambda>r. if o_id r \<in> set (updated_ids w (map fst (row # rows))) then past_harvest_row w r else r) (orders s)"
      unfolding row using None by (simp add: updated_ids_def)
    finally show ?thesis .
  next
    case (Some e)
    then show ?thesis
      unfolding row by (simp add: Cons.IH updated_ids_def)
  qed
qed

lemma cancel_expired_notifications:
  "notifications (cancel_expired w rows s) = notifications s @ concat (map (expired_notices w s) rows)"
proof (induction rows arbitrary: s)
  case Nil
  show ?case by simp
next
  case (Cons row rows)
  obtain i u f where row: "row = (i, u, f)" by (cases row) auto
  show ?case
    unfolding row
    by (cases "update_error w i") (simp_all add: Cons.IH accepted_append expired_notices_def)
qed

lemma cancel_past_harvest_notifications:
  "notifications (cancel_past_harvest w rows s) = notifications s @ concat (map (window_notices w s) rows)"
proof (induction rows arbitrary: s)
  case Nil
  show ?case by simp
next
  case (Cons row rows)
  obtain i u where row: "row = (i, u)" by (cases row) auto
  show ?case
    unfolding row by (cases "update_error w i") (simp_all add: Cons.IH window_notices_def)
qed

lemma cancel_expired_products [simp]: "products (cancel_expired w rows s) = products s"
proof (induction rows arbitrary: s)
  case Nil
  show ?case by simp
next
  case (Cons row rows)
  obtain i u f where row: "row = (i, u, f)" by (cases row) auto
  show ?case
    unfolding row by (cases "update_error w i") (simp_all add: Cons.IH)
qed

lemma cancel_past_harvest_products [simp]: "products (cancel_past_harvest w rows s) = products s"
proof (induction rows arbitrary: s)
  case Nil
  show ?case by simp
next
  case (Cons row rows)
  obtain i u where row: "row = (i, u)" by (cases row) auto
  show ?case
    unfolding row by (cases "update_error w i") (simp_all add: Cons.IH)
qed


section \<open>Lists keyed by a unique column\<close>

lemma find_key:
  "distinct (map k xs) \<Longrightarrow> x \<in> set xs \<Longrightarrow> find (\<lambda>y. k y = k x) xs = Some x"
  by (induction xs) auto

lemma find_map_keyed:
  "(\<And>y. k (g y) = k y) \<Longrightarrow> find (\<lambda>y. k y = i) (map g xs) = map_option g (find (\<lambda>y. k y = i) xs)"
  by (induction xs) auto

lemma key_of_filtered:
  "distinct (map k xs) \<Longrightarrow> x \<in> set xs \<Longrightarrow> k x \<in> k ` set (filter P xs) \<Longrightarrow> P x"
proof -
  assume d: "distinct (map k xs)" and x: "x \<in> set xs" and m: "k x \<in> k ` set (filter P xs)"
  from m obtain y where y: "y \<in> set xs" "P y" "k y = k x" by auto
  from d x y(1) y(3) have "y = x" by (meson distinct_map inj_onD)
  with y(2) show "P x" by simp
qed

lemma concat_map_none:
  "(\<And>y. y \<in> set xs \<Longrightarrow> h y = []) \<Longrightarrow> concat (map h xs) = []"
  by (induction xs) auto

lemma concat_map_key:
  "distinct (map k xs) \<Longrightarrow> x \<in> set xs \<Longrightarrow>
   concat (map (\<lambda>y. if k y = k x then h y else []) xs) = h x"
proof (induction xs)
  case Nil
  then show ?case by simp
next
  case (Cons a xs)
  show ?case
  proof (cases "a = x")
    case True
    have "\<And>y. y \<in> set xs \<Longrightarrow> (if k y = k x then h y else []) = []"
      using Cons.prems(1) True by (auto simp: image_iff)
    then have "concat (map (\<lambda>y. if k y = k x then h y else []) xs) = []"
      by (rule concat_map_none)
    then show ?thesis using True by simp
  next
    case False
    then have "x \<in> set xs" using Cons.prems(2) by simp
    moreover have "k a \<noteq> k x" using Cons.prems(1) \<open>x \<in> set xs\<close> by (auto simp: image_iff)
    ultimately show ?thesis using Cons by simp
  qed
qed

lemma filter_concat_map:
  "filter P (concat (map h xs)) = concat (map (\<lambda>y. filter P (h y)) xs)"
  by (induction xs) auto

section \<open>One run of a sweep job in closed form\<close>

lemma swept_row_found:
  assumes "distinct (map o_id xs)" and "r \<in> set xs" and "\<And>y. o_id (g y) = o_id y"
  shows "find (\<lambda>y. o_id y = o_id r) (map (\<lambda>y. if o_id y \<in> I then g y else y) xs)
           = Some (if o_id r \<in> I then g r else r)"
proof -
  have "find (\<lambda>y. o_id y = o_id r) (map (\<lambda>y. if o_id y \<in> I then g y else y) xs)
          = map_option (\<lambda>y. if o_id y \<in> I then g y else y) (find (\<lambda>y. o_id y = o_id r) xs)"
    by (rule find_map_keyed) (simp add: assms(3))
  also have "find (\<lambda>y. o_id y = o_id r) xs = Some r"
    using assms(1,2) by (rule find_key)
  finally show ?thesis by simp
qed

lemma swept_id_iff:
  assumes "distinct (map o_id xs)" and "r \<in> set xs"
  shows "o_id r \<in> set (updated_ids w (map o_id (filter P xs)))
           \<longleftrightarrow> P r \<and> update_error w (o_id r) = None"
proof
  assume "o_id r \<in> set (updated_ids w (map o_id (filter P xs)))"
  then have m: "o_id r \<in> o_id ` set (filter P xs)" and u: "update_error w (o_id r) = None"
    by (auto simp: updated_ids_def)
  from assms m have "P r" by (rule key_of_filtered)
  with u show "P r \<and> update_error w (o_id r) = None" by simp
next
  assume "P r \<and> update_error w (o_id r) = None"
  with assms(2) show "o_id r \<in> set (updated_ids w (map o_id (filter P xs)))"
    by (auto simp: updated_ids_def)
qed

lemma fetch_expired_ids: "map fst (fetch_expired t s) = map o_id (filter (is_expired t) (orders s))"
  by (simp add: fetch_expired_def comp_def)

lemma fetch_past_harvest_ids:
  "map fst (fetch_past_harvest t s) = map o_id (filter (is_past_harvest t s) (orders s))"
  by (simp add: fetch_past_harvest_def comp_def)

lemma about_expired_notices:
  "about_order i (expired_notices w s (o_id y, o_user_id y, o_farm_id y))
     = (if o_id y = i then expired_notices w s (o_id y, o_user_id y, o_farm_id y) else [])"
  by (auto simp: about_order_def expired_notices_def accepted_def buyer_expired_notification_def
        farm_expired_notification_def split: option.splits)

lemma about_window_notices:
  "about_order i (window_notices w s (o_id y, o_user_id y))
     = (if o_id y = i then window_notices w s (o_id y, o_user_id y) else [])"
  by (auto simp: about_order_def window_notices_def accepted_def buyer_window_notification_def
        split: option.splits)

lemma about_order_concat:
  "about_order i (concat (map h xs)) = concat (map (\<lambda>y. about_order i (h y)) xs)"
  unfolding about_order_def by (rule filter_concat_map)

lemma about_keyed:
  assumes d: "distinct (map o_id xs)" and r: "r \<in> set xs"
    and h: "\<And>y. about_order (o_id r) (h y) = (if o_id y = o_id r then h y else [])"
  shows "about_order (o_id r) (concat (map h (filter P xs))) = (if P r then h r else [])"
proof (cases "P r")
  case True
  have d': "distinct (map o_id (filter P xs))" using d by (rule distinct_map_filter)
  have r': "r \<in> set (filter P xs)" using r True by simp
  have "about_order (o_id r) (concat (map h (filter P xs)))
          = concat (map (\<lambda>y. if o_id y = o_id r then h y else []) (filter P xs))"
    by (simp add: about_order_concat h)
  also have "\<dots> = h r" using d' r' by (rule concat_map_key)
  finally show ?thesis using True by simp
next
  case False
  have "\<And>y. y \<in> set (filter P xs) \<Longrightarrow> about_order (o_id r) (h y) = []"
  proof -
    fix y assume y: "y \<in> set (filter P xs)"
    have "o_id y \<noteq> o_id r"
    proof
      assume e: "o_id y = o_id r"
      from y have "o_id y \<in> o_id ` set (filter P xs)" by (rule imageI)
      then have "o_id r \<in> o_id ` set (filter P xs)" using e by simp
      with d r have "P r" by (rule key_of_filtered)
      with False show False by simp
    qed
    then show "about_order (o_id r) (h y) = []" by (simp add: h)
  qed
  then have "concat (map (\<lambda>y. about_order (o_id r) (h y)) (filter P xs)) = []"
    by (rule concat_map_none)
  then show ?thesis using False by (simp add: about_order_concat)
qed

lemma emitted_append [simp]: "notifications s' = notifications s @ ns \<Longrightarrow> emitted s s' = ns"
  by (simp add: emitted_def)

lemma emitted_same [simp]: "emitted s s = []"
  by (simp add: emitted_def)

lemma emitted_cancel_expired:
  "emitted s (cancel_expired w (fetch_expired t s) s)
     = concat (map (\<lambda>y. expired_notices w s (o_id y, o_user_id y, o_farm_id y))
         (filter (is_expired t) (orders s)))"
  by (simp add: cancel_expired_notifications fetch_expired_def comp_def)

lemma emitted_cancel_past_harvest:
  "emitted s (cancel_past_harvest w (fetch_past_harvest t s) s)
     = concat (map (\<lambda>y. window_notices w s (o_id y, o_user_id y))
         (filter (is_past_harvest t s) (orders s)))"
  by (simp add: cancel_past_harvest_notifications fetch_past_harvest_def comp_def)

text \<open>What a run of the first job does to one row and says about it.\<close>

lemma expired_run_row:
  assumes "distinct (map o_id (orders s))" and "r \<in> set (orders s)"
  shows "order_by_id (cancel_expired w (fetch_expired t s) s) (o_id r)
           = Some (if is_expired t r \<and> update_error w (o_id r) = None then expired_row w r else r)"
  unfolding order_by_id_def cancel_expired_orders fetch_expired_ids
  using assms by (simp add: swept_row_found swept_id_iff)

lemma expired_run_notices:
  assumes "distinct (map o_id (orders s))" and "r \<in> set (orders s)"
  shows "about_order (o_id r) (emitted s (cancel_expired w (fetch_expired t s) s))
           = (if is_expired t r then expired_notices w s (o_id r, o_user_id r, o_farm_id r) else [])"
  unfolding emitted_cancel_expired
  using assms by (rule about_keyed) (rule about_expired_notices)

lemma past_harvest_run_row:
  assumes "distinct (map o_id (orders s))" and "r \<in> set (orders s)"
  shows "order_by_id (cancel_past_harvest w (fetch_past_harvest t s) s) (o_id r)
           = Some (if is_past_harvest t s r \<and> update_error w (o_id r) = None
                   then past_harvest_row w r else r)"
  unfolding order_by_id_def cancel_past_harvest_orders fetch_past_harvest_ids
  using assms by (simp add: swept_row_found swept_id_iff)

lemma past_harvest_run_notices:
  assumes "distinct (map o_id (orders s))" and "r \<in> set (orders s)"
  shows "about_order (o_id r) (emitted s (cancel_past_harvest w (fetch_past_harvest t s) s))
           = (if is_past_harvest t s r then window_notices w s (o_id r, o_user_id r) else [])"
  unfolding emitted_cancel_past_harvest
  using assms by (rule about_keyed) (rule about_window_notices)

section \<open>The jobs as wholes\<close>

lemma job_store_expired:
  "fetch_error w = None \<Longrightarrow>
   snd (check_farm_confirm_job w s) = cancel_expired w (fetch_expired (now w) s) s"
  by (simp add: check_farm_confirm_job_def Let_def)

lemma job_store_past_harvest:
  "fetch_error w = None \<Longrightarrow>
   snd (auto_cancel_orders_job w s) = cancel_past_harvest w (fetch_past_harvest (now w) s) s"
  by (simp add: auto_cancel_orders_job_def Let_def)

lemma job_fetch_failed_expired:
  "fetch_error w = Some e \<Longrightarrow> check_farm_confirm_job w s = (error_response e, s)"
  by (simp add: check_farm_confirm_job_def)

lemma job_fetch_failed_past_harvest:
  "fetch_error w = Some e \<Longrightarrow> auto_cancel_orders_job w s = (error_response e, s)"
  by (simp add: auto_cancel_orders_job_def)

text \<open>A request that is not the CORS preflight runs the job.\<close>

lemma check_farm_confirm_runs_job:
  "m \<noteq> ''OPTIONS'' \<Longrightarrow> check_farm_confirm m w s = check_farm_confirm_job w s"
  by (simp add: check_farm_confirm_def)

lemma auto_cancel_orders_runs_job:
  "m \<noteq> ''OPTIONS'' \<Longrightarrow> auto_cancel_orders m w s = auto_cancel_orders_job w s"
  by (simp add: auto_cancel_orders_def)

section \<open>Facts about the example data\<close>

lemma example_distinct: "distinct (map o_id (orders store1))"
  by (simp add: store1_def)

lemma example_member: "order1 \<in> set (orders store1)"
  by (simp add: store1_def)

lemma example_stale: "spec_stale_pending (now calm_world) order1"
  by (simp add: spec_stale_pending_def calm_world_def order1_def)

lemma example_past_harvest: "spec_past_harvest (now calm_world) store1 order1"
  by (simp add: spec_past_harvest_def calm_world_def order1_def store1_def linked_product_def
      product1_def iso_date_def)

lemma example_world_fields:
  "now calm_world = 2592000000" "fetch_error calm_world = None"
  "update_error calm_world i = None" "notify_error calm_world n = None"
  "now update_failing_world = 2592000000" "fetch_error update_failing_world = None"
  "update_error update_failing_world i = Some (ErrorObject ''timeout'')"
  "now fetch_failing_world = 2592000000"
  "fetch_error fetch_failing_world = Some (ErrorObject ''connection refused'')"
  "now notify_failing_world = 2592000000" "fetch_error notify_failing_world = None"
  "update_error notify_failing_world i = None"
  "notify_error notify_failing_world n = Some (ErrorObject ''timeout'')"
  by (simp_all add: calm_world_def update_failing_world_def fetch_failing_world_def
      notify_failing_world_def)

lemma example_accepted:
  "accepted calm_world store1 [buyer_expired_notification ''o1'' ''u1'',
       farm_expired_notification ''o1'' ''f1'']
     = [buyer_expired_notification ''o1'' ''u1'', farm_expired_notification ''o1'' ''f1'']"
  "accepted calm_world store1 [buyer_window_notification ''o1'' ''u1'']
     = [buyer_window_notification ''o1'' ''u1'']"
  "accepted notify_failing_world s ns = []"
  by (simp_all add: accepted_def notification_accepted_def example_world_fields
      buyer_expired_notification_def farm_expired_notification_def buyer_window_notification_def
      store1_def order1_def)

lemma example_fetch_expired: "fetch_expired 2592000000 store1 = [(''o1'', ''u1'', ''f1'')]"
  by (simp add: fetch_expired_def store1_def order1_def is_expired_def two_days_ago_def)

lemma example_fetch_past_harvest: "fetch_past_harvest 2592000000 store1 = [(''o1'', ''u1'')]"
  by (simp add: fetch_past_harvest_def store1_def order1_def product1_def is_past_harvest_def
      linked_product_def iso_date_def seven_days_ago_def)

lemma example_calm_expired:
  "snd (check_farm_confirm_job calm_world store1)
     = store1 \<lparr> orders := [expired_row calm_world order1],
                notifications := [buyer_expired_notification ''o1'' ''u1'',
                                  farm_expired_notification ''o1'' ''f1''] \<rparr>"
  by (simp add: check_farm_confirm_job_def Let_def example_world_fields example_fetch_expired)
     (simp add: insert_notification_def notification_accepted_def update_orders_def
      expired_row_def buyer_expired_notification_def farm_expired_notification_def
      example_world_fields store1_def order1_def)

lemma example_unnotified_expired:
  "snd (check_farm_confirm_job notify_failing_world store1)
     = store1 \<lparr> orders := [expired_row notify_failing_world order1] \<rparr>"
  by (simp add: check_farm_confirm_job_def Let_def example_world_fields example_fetch_expired)
     (simp add: insert_notification_def notification_accepted_def update_orders_def
      expired_row_def buyer_expired_notification_def farm_expired_notification_def
      example_world_fields store1_def order1_def)

lemma example_calm_past_harvest:
  "snd (auto_cancel_orders_job calm_world store1)
     = store1 \<lparr> orders := [past_harvest_row calm_world order1],
                notifications := [buyer_window_notification ''o1'' ''u1''] \<rparr>"
  by (simp add: auto_cancel_orders_job_def Let_def example_world_fields example_fetch_past_harvest)
     (simp add: insert_notification_def notification_accepted_def update_orders_def
      past_harvest_row_def buyer_window_notification_def example_world_fields store1_def
      order1_def)

lemma example_unnotified_past_harvest:
  "snd (auto_cancel_orders_job notify_failing_world store1)
     = store1 \<lparr> orders := [past_harvest_row notify_failing_world order1] \<rparr>"
  by (simp add: auto_cancel_orders_job_def Let_def example_world_fields example_fetch_past_harvest)
     (simp add: insert_notification_def notification_accepted_def update_orders_def
      past_harvest_row_def buyer_window_notification_def example_world_fields store1_def
      order1_def)

lemma example_failing_expired:
  "check_farm_confirm_job update_failing_world store1
     = (success_response (expired_message 1), store1)"
  by (simp add: check_farm_confirm_job_def Let_def example_world_fields example_fetch_expired)

lemma example_failing_past_harvest:
  "auto_cancel_orders_job update_failing_world store1
     = (success_response (window_message 1), store1)"
  by (simp add: auto_cancel_orders_job_def Let_def example_world_fields example_fetch_past_harvest)

section \<open>Stale pending orders\<close>

text \<open>The two notifications of a cancelled row pass the foreign keys when its buyer and its farm are users.\<close>

lemma accepted_expired_pair:
  assumes "r \<in> set (orders s)" and "o_user_id r \<in> set (users s)" and "o_farm_id r \<in> set (users s)"
    and "notify_error w (buyer_expired_notification (o_id r) (o_user_id r)) = None"
    and "notify_error w (farm_expired_notification (o_id r) (o_farm_id r)) = None"
  shows "accepted w s [buyer_expired_notification (o_id r) (o_user_id r),
                       farm_expired_notification (o_id r) (o_farm_id r)]
           = [buyer_expired_notification (o_id r) (o_user_id r),
              farm_expired_notification (o_id r) (o_farm_id r)]"
proof -
  have i: "o_id r \<in> o_id ` set (orders s)" using assms(1) by (rule imageI)
  have "notification_accepted w s (buyer_expired_notification (o_id r) (o_user_id r))"
    using assms(2,4) i
    by (simp add: notification_accepted_def) (simp add: buyer_expired_notification_def)
  moreover have "notification_accepted w s (farm_expired_notification (o_id r) (o_farm_id r))"
    using assms(3,5) i
    by (simp add: notification_accepted_def) (simp add: farm_expired_notification_def)
  ultimately show ?thesis by (simp add: accepted_def)
qed

lemma accepted_window_single:
  assumes "r \<in> set (orders s)" and "o_user_id r \<in> set (users s)"
    and "notify_error w (buyer_window_notification (o_id r) (o_user_id r)) = None"
  shows "accepted w s [buyer_window_notification (o_id r) (o_user_id r)]
           = [buyer_window_notification (o_id r) (o_user_id r)]"
proof -
  have i: "o_id r \<in> o_id ` set (orders s)" using assms(1) by (rule imageI)
  have "notification_accepted w s (buyer_window_notification (o_id r) (o_user_id r))"
    using assms(2,3) i
    by (simp add: notification_accepted_def) (simp add: buyer_window_notification_def)
  then show ?thesis by (simp add: accepted_def)
qed

text \<open>
  Claim C1, as amended. In a run of the stale-pending sweep whose initial fetch
  succeeds, every order that is pending and older than 48 hours at the time of
  the run, and whose row update the store accepts, ends the run cancelled, with
  \<^verbatim>\<open>cancelled_at\<close> set to the clock reading of its update and the fixed reason
  \<^verbatim>\<open>Farm did not confirm within 48 hours\<close>, every other column but \<^verbatim>\<open>updated_at\<close>
  as before. The run then sends two notification inserts about the order, the
  first to the buyer and the second to the farm, and does not read their results:
  the notifications it emits about the order are those of the two that the store
  accepts, in that order. They are exactly the two when the buyer and the farm
  are users and the store rejects neither insert. Order ids are unique, as the
  primary key makes them.
\<close>

theorem stale_pending_order_cancelled:
  assumes "distinct (map o_id (orders s))" and "r \<in> set (orders s)"
    and "spec_stale_pending (now w) r"
    and "fetch_error w = None" and "update_error w (o_id r) = None"
  shows "order_by_id (snd (check_farm_confirm_job w s)) (o_id r)
           = Some (r \<lparr> status := Cancelled,
                       cancelled_at := Some (update_clock w (o_id r)),
                       cancellation_reason := Some farm_timeout_reason,
                       updated_at := Some (db_clock w (o_id r)) \<rparr>)
         \<and> about_order (o_id r) (emitted s (snd (check_farm_confirm_job w s)))
           = accepted w s [buyer_expired_notification (o_id r) (o_user_id r),
                           farm_expired_notification (o_id r) (o_farm_id r)]
         \<and> (o_user_id r \<in> set (users s) \<and> o_farm_id r \<in> set (users s)
            \<and> notify_error w (buyer_expired_notification (o_id r) (o_user_id r)) = None
            \<and> notify_error w (farm_expired_notification (o_id r) (o_farm_id r)) = None \<longrightarrow>
              about_order (o_id r) (emitted s (snd (check_farm_confirm_job w s)))
                = [buyer_expired_notification (o_id r) (o_user_id r),
                   farm_expired_notification (o_id r) (o_farm_id r)]
              \<and> map n_user_id (about_order (o_id r) (emitted s (snd (check_farm_confirm_job w s))))
                = [o_user_id r, o_farm_id r])"
proof (intro conjI impI)
  have e: "is_expired (now w) r" using assms(3) by (simp add: is_expired_spec)
  have "order_by_id (snd (check_farm_confirm_job w s)) (o_id r) = Some (expired_row w r)"
    using assms(1,2,4,5) e by (simp add: job_store_expired expired_run_row)
  then show "order_by_id (snd (check_farm_confirm_job w s)) (o_id r)
           = Some (r \<lparr> status := Cancelled,
                       cancelled_at := Some (update_clock w (o_id r)),
                       cancellation_reason := Some farm_timeout_reason,
                       updated_at := Some (db_clock w (o_id r)) \<rparr>)"
    by (simp add: expired_row_eq)
  have "about_order (o_id r) (emitted s (snd (check_farm_confirm_job w s)))
      = expired_notices w s (o_id r, o_user_id r, o_farm_id r)"
    using assms(1,2,4) e by (simp add: job_store_expired expired_run_notices)
  then show n: "about_order (o_id r) (emitted s (snd (check_farm_confirm_job w s)))
           = accepted w s [buyer_expired_notification (o_id r) (o_user_id r),
                           farm_expired_notification (o_id r) (o_farm_id r)]"
    using assms(5) by (simp add: expired_notices_def)
  assume a: "o_user_id r \<in> set (users s) \<and> o_farm_id r \<in> set (users s)
            \<and> notify_error w (buyer_expired_notification (o_id r) (o_user_id r)) = None
            \<and> notify_error w (farm_expired_notification (o_id r) (o_farm_id r)) = None"
  have "accepted w s [buyer_expired_notification (o_id r) (o_user_id r),
                      farm_expired_notification (o_id r) (o_farm_id r)]
          = [buyer_expired_notification (o_id r) (o_user_id r),
             farm_expired_notification (o_id r) (o_farm_id r)]"
    using assms(2) a by (simp add: accepted_expired_pair)
  with n show both: "about_order (o_id r) (emitted s (snd (check_farm_confirm_job w s)))
                = [buyer_expired_notification (o_id r) (o_user_id r),
                   farm_expired_notification (o_id r) (o_farm_id r)]"
    by simp
  show "map n_user_id (about_order (o_id r) (emitted s (snd (check_farm_confirm_job w s))))
          = [o_user_id r, o_farm_id r]"
    unfolding both by (simp add: buyer_expired_notification_def farm_expired_notification_def)
qed

text \<open>
  The amended claim C1 at the example: one stale order whose buyer and farm are
  users, a world without failures.
\<close>

theorem stale_pending_order_cancelled_witness:
  "distinct (map o_id (orders store1)) \<and> order1 \<in> set (orders store1)
   \<and> spec_stale_pending (now calm_world) order1
   \<and> fetch_error calm_world = None \<and> update_error calm_world (o_id order1) = None
   \<and> o_user_id order1 \<in> set (users store1) \<and> o_farm_id order1 \<in> set (users store1)
   \<and> notify_error calm_world (buyer_expired_notification (o_id order1) (o_user_id order1)) = None
   \<and> notify_error calm_world (farm_expired_notification (o_id order1) (o_farm_id order1)) = None
   \<and> order_by_id (snd (check_farm_confirm_job calm_world store1)) ''o1''
       = Some (order1 \<lparr> status := Cancelled, cancelled_at := Some 2592000001,
                 cancellation_reason := Some ''Farm did not confirm within 48 hours'',
                 updated_at := Some 2592000002 \<rparr>)
   \<and> about_order ''o1'' (emitted store1 (snd (check_farm_confirm_job calm_world store1)))
       = [buyer_expired_notification ''o1'' ''u1'', farm_expired_notification ''o1'' ''f1'']
   \<and> map n_user_id (about_order ''o1'' (emitted store1 (snd (check_farm_confirm_job calm_world store1))))
       = [''u1'', ''f1'']"
proof -
  have f: "fetch_error calm_world = None" and u: "update_error calm_world (o_id order1) = None"
    by (simp_all add: calm_world_def)
  have ids: "o_id order1 = ''o1''" "o_user_id order1 = ''u1''" "o_farm_id order1 = ''f1''"
    by (simp_all add: order1_def)
  have us: "o_user_id order1 \<in> set (users store1)" "o_farm_id order1 \<in> set (users store1)"
    by (simp_all add: ids store1_def)
  have n: "notify_error calm_world (buyer_expired_notification (o_id order1) (o_user_id order1)) = None"
    "notify_error calm_world (farm_expired_notification (o_id order1) (o_farm_id order1)) = None"
    by (simp_all add: example_world_fields)
  have c: "update_clock calm_world ''o1'' = 2592000001" "db_clock calm_world ''o1'' = 2592000002"
    by (simp_all add: calm_world_def)
  note t = stale_pending_order_cancelled [OF example_distinct example_member example_stale f u]
  show ?thesis
    using t example_distinct example_member example_stale f u us n
    by (simp add: ids c farm_timeout_reason_def example_accepted)
       (simp add: buyer_expired_notification_def farm_expired_notification_def)
qed

text \<open>
  Claim C1 as stated fails where the store rejects the update of the row and
  where the fetch fails: the order is pending and 30 days old, the run leaves it
  as it was and emits nothing. It also fails where the store rejects the inserts
  into the notifications: the run cancels the order and emits no notification.
\<close>

theorem stale_pending_order_counterexample:
  "order1 \<in> set (orders store1) \<and> status order1 \<noteq> Cancelled
   \<and> spec_stale_pending (now update_failing_world) order1
   \<and> order_by_id (snd (check_farm_confirm_job update_failing_world store1)) (o_id order1) = Some order1
   \<and> emitted store1 (snd (check_farm_confirm_job update_failing_world store1)) = []
   \<and> spec_stale_pending (now fetch_failing_world) order1
   \<and> order_by_id (snd (check_farm_confirm_job fetch_failing_world store1)) (o_id order1) = Some order1
   \<and> emitted store1 (snd (check_farm_confirm_job fetch_failing_world store1)) = []
   \<and> spec_stale_pending (now notify_failing_world) order1
   \<and> map status (orders (snd (check_farm_confirm_job notify_failing_world store1))) = [Cancelled]
   \<and> emitted store1 (snd (check_farm_confirm_job notify_failing_world store1)) = []"
  by (simp add: example_failing_expired job_fetch_failed_expired example_world_fields
      example_unnotified_expired spec_stale_pending_def order_by_id_def emitted_def)
     (simp add: store1_def order1_def)

section \<open>Orders past the harvest window\<close>

text \<open>
  Claim C2, as amended. In a run of the post-harvest-window sweep whose initial
  fetch succeeds, every order that is pending or confirmed, whose linked product's
  harvest date is more than 7 days before the date of the run, and whose row
  update the store accepts, ends the run cancelled, with \<^verbatim>\<open>cancelled_at\<close> set to the
  clock reading of its update and the fixed reason
  \<^verbatim>\<open>Auto-cancelled: Exceeded 7 days after harvest date\<close>. The run then sends one
  notification insert about the order, addressed to the buyer, and does not read
  its result: it emits that notification if the store accepts the insert and none
  otherwise, and never one to the farm. It is exactly the one when the buyer is
  a user and the store does not reject the insert. Order ids are unique.
\<close>

theorem past_harvest_order_cancelled:
  assumes "distinct (map o_id (orders s))" and "r \<in> set (orders s)"
    and "spec_past_harvest (now w) s r"
    and "fetch_error w = None" and "update_error w (o_id r) = None"
  shows "order_by_id (snd (auto_cancel_orders_job w s)) (o_id r)
           = Some (r \<lparr> status := Cancelled,
                       cancelled_at := Some (update_clock w (o_id r)),
                       cancellation_reason := Some harvest_window_reason,
                       updated_at := Some (db_clock w (o_id r)) \<rparr>)
         \<and> about_order (o_id r) (emitted s (snd (auto_cancel_orders_job w s)))
           = accepted w s [buyer_window_notification (o_id r) (o_user_id r)]
         \<and> (o_user_id r \<in> set (users s)
            \<and> notify_error w (buyer_window_notification (o_id r) (o_user_id r)) = None \<longrightarrow>
              about_order (o_id r) (emitted s (snd (auto_cancel_orders_job w s)))
                = [buyer_window_notification (o_id r) (o_user_id r)]
              \<and> map n_user_id (about_order (o_id r) (emitted s (snd (auto_cancel_orders_job w s))))
                = [o_user_id r])"
proof (intro conjI impI)
  have e: "is_past_harvest (now w) s r" using assms(3) by (simp add: is_past_harvest_spec)
  have "order_by_id (snd (auto_cancel_orders_job w s)) (o_id r) = Some (past_harvest_row w r)"
    using assms(1,2,4,5) e by (simp add: job_store_past_harvest past_harvest_run_row)
  then show "order_by_id (snd (auto_cancel_orders_job w s)) (o_id r)
           = Some (r \<lparr> status := Cancelled,
                       cancelled_at := Some (update_clock w (o_id r)),
                       cancellation_reason := Some harvest_window_reason,
                       updated_at := Some (db_clock w (o_id r)) \<rparr>)"
    by (simp add: past_harvest_row_eq)
  have "about_order (o_id r) (emitted s (snd (auto_cancel_orders_job w s)))
      = window_notices w s (o_id r, o_user_id r)"
    using assms(1,2,4) e by (simp add: job_store_past_harvest past_harvest_run_notices)
  then show n: "about_order (o_id r) (emitted s (snd (auto_cancel_orders_job w s)))
           = accepted w s [buyer_window_notification (o_id r) (o_user_id r)]"
    using assms(5) by (simp add: window_notices_def)
  assume a: "o_user_id r \<in> set (users s)
            \<and> notify_error w (buyer_window_notification (o_id r) (o_user_id r)) = None"
  have "accepted w s [buyer_window_notification (o_id r) (o_user_id r)]
          = [buyer_window_notification (o_id r) (o_user_id r)]"
    using assms(2) a by (simp add: accepted_window_single)
  with n show one: "about_order (o_id r) (emitted s (snd (auto_cancel_orders_job w s)))
                = [buyer_window_notification (o_id r) (o_user_id r)]"
    by simp
  show "map n_user_id (about_order (o_id r) (emitted s (snd (auto_cancel_orders_job w s))))
          = [o_user_id r]"
    unfolding one by (simp add: buyer_window_notification_def)
qed

text \<open>The amended claim C2 at the example: harvest on day 0, the run on day 30.\<close>

theorem past_harvest_order_cancelled_witness:
  "distinct (map o_id (orders store1)) \<and> order1 \<in> set (orders store1)
   \<and> spec_past_harvest (now calm_world) store1 order1
   \<and> fetch_error calm_world = None \<and> update_error calm_world (o_id order1) = None
   \<and> o_user_id order1 \<in> set (users store1)
   \<and> notify_error calm_world (buyer_window_notification (o_id order1) (o_user_id order1)) = None
   \<and> order_by_id (snd (auto_cancel_orders_job calm_world store1)) ''o1''
       = Some (order1 \<lparr> status := Cancelled, cancelled_at := Some 2592000001,
                 cancellation_reason := Some ''Auto-cancelled: Exceeded 7 days after harvest date'',
                 updated_at := Some 2592000002 \<rparr>)
   \<and> about_order ''o1'' (emitted store1 (snd (auto_cancel_orders_job calm_world store1)))
       = [buyer_window_notification ''o1'' ''u1'']
   \<and> map n_user_id (about_order ''o1'' (emitted store1 (snd (auto_cancel_orders_job calm_world store1))))
       = [''u1'']"
proof -
  have f: "fetch_error calm_world = None" and u: "update_error calm_world (o_id order1) = None"
    by (simp_all add: calm_world_def)
  have ids: "o_id order1 = ''o1''" "o_user_id order1 = ''u1''"
    by (simp_all add: order1_def)
  have us: "o_user_id order1 \<in> set (users store1)"
    by (simp add: ids store1_def)
  have n: "notify_error calm_world (buyer_window_notification (o_id order1) (o_user_id order1)) = None"
    by (simp add: example_world_fields)
  have c: "update_clock calm_world ''o1'' = 2592000001" "db_clock calm_world ''o1'' = 2592000002"
    by (simp_all add: calm_world_def)
  note t = past_harvest_order_cancelled [OF example_distinct example_member example_past_harvest f u]
  show ?thesis
    using t example_distinct example_member example_past_harvest f u us n
    by (simp add: ids c harvest_window_reason_def example_accepted)
       (simp add: buyer_window_notification_def)
qed

text \<open>
  Claim C2 as stated fails where the store rejects the update of the row and
  where the fetch fails: the order is pending, its harvest date lies 30 days
  back, the run leaves it as it was and emits nothing. It also fails where the
  store rejects the insert into the notifications: the run cancels the order and
  emits no notification.
\<close>

theorem past_harvest_order_counterexample:
  "order1 \<in> set (orders store1) \<and> status order1 \<noteq> Cancelled
   \<and> spec_past_harvest (now update_failing_world) store1 order1
   \<and> order_by_id (snd (auto_cancel_orders_job update_failing_world store1)) (o_id order1) = Some order1
   \<and> emitted store1 (snd (auto_cancel_orders_job update_failing_world store1)) = []
   \<and> spec_past_harvest (now fetch_failing_world) store1 order1
   \<and> order_by_id (snd (auto_cancel_orders_job fetch_failing_world store1)) (o_id order1) = Some order1
   \<and> emitted store1 (snd (auto_cancel_orders_job fetch_failing_world store1)) = []
   \<and> spec_past_harvest (now notify_failing_world) store1 order1
   \<and> map status (orders (snd (auto_cancel_orders_job notify_failing_world store1))) = [Cancelled]
   \<and> emitted store1 (snd (auto_cancel_orders_job notify_failing_world store1)) = []"
  by (simp add: example_failing_past_harvest job_fetch_failed_past_harvest example_world_fields
      example_unnotified_past_harvest spec_past_harvest_def order_by_id_def linked_product_def
      emitted_def)
     (simp add: store1_def order1_def product1_def iso_date_def)

section \<open>Orders outside both predicates\<close>

lemma job_row_expired:
  assumes "distinct (map o_id (orders s))" and "r \<in> set (orders s)" and "\<not> is_expired (now w) r"
  shows "order_by_id (snd (check_farm_confirm_job w s)) (o_id r) = Some r
         \<and> about_order (o_id r) (emitted s (snd (check_farm_confirm_job w s))) = []"
proof (cases "fetch_error w")
  case None
  then show ?thesis
    using assms by (simp add: job_store_expired expired_run_row expired_run_notices)
next
  case (Some e)
  then show ?thesis
    using assms by (simp add: job_fetch_failed_expired order_by_id_def find_key about_order_def)
qed

lemma job_row_past_harvest:
  assumes "distinct (map o_id (orders s))" and "r \<in> set (orders s)" and "\<not> is_past_harvest (now w) s r"
  shows "order_by_id (snd (auto_cancel_orders_job w s)) (o_id r) = Some r
         \<and> about_order (o_id r) (emitted s (snd (auto_cancel_orders_job w s))) = []"
proof (cases "fetch_error w")
  case None
  then show ?thesis
    using assms by (simp add: job_store_past_harvest past_harvest_run_row past_harvest_run_notices)
next
  case (Some e)
  then show ?thesis
    using assms by (simp add: job_fetch_failed_past_harvest order_by_id_def find_key about_order_def)
qed

lemma untouched_store:
  assumes "distinct (map o_id (orders s))" and "r \<in> set (orders s)"
  shows "order_by_id s (o_id r) = Some r \<and> about_order (o_id r) (emitted s s) = []"
  using assms by (simp add: order_by_id_def find_key about_order_def)

text \<open>
  Claim C3. An order that is neither stale pending nor past its harvest window
  keeps its row, column for column, through a request to either sweep handler,
  and the handler emits no notification about it; whatever the request method
  and whatever the store answers during the run. Order ids are unique.
\<close>

theorem other_orders_unchanged:
  assumes "distinct (map o_id (orders s))" and "r \<in> set (orders s)"
    and "\<not> spec_stale_pending (now w) r" and "\<not> spec_past_harvest (now w) s r"
  shows "order_by_id (snd (check_farm_confirm m w s)) (o_id r) = Some r
         \<and> about_order (o_id r) (emitted s (snd (check_farm_confirm m w s))) = []
         \<and> order_by_id (snd (auto_cancel_orders m w s)) (o_id r) = Some r
         \<and> about_order (o_id r) (emitted s (snd (auto_cancel_orders m w s))) = []"
proof -
  have a: "\<not> is_expired (now w) r" using assms(3) by (simp add: is_expired_spec)
  have b: "\<not> is_past_harvest (now w) s r" using assms(4) by (simp add: is_past_harvest_spec)
  note j1 = job_row_expired [OF assms(1,2) a]
  note j2 = job_row_past_harvest [OF assms(1,2) b]
  note u = untouched_store [OF assms(1,2)]
  show ?thesis
  proof (cases "m = ''OPTIONS''")
    case True
    then show ?thesis using u by (simp add: check_farm_confirm_def auto_cancel_orders_def)
  next
    case False
    then show ?thesis using j1 j2 by (simp add: check_farm_confirm_def auto_cancel_orders_def)
  qed
qed

text \<open>Claim C3 at an order already shipped, in a POST request that meets no failure.\<close>

theorem other_orders_unchanged_witness:
  "distinct (map o_id (orders (store1 \<lparr> orders := [order1 \<lparr> status := Shipped \<rparr>] \<rparr>)))
   \<and> order1 \<lparr> status := Shipped \<rparr> \<in> set (orders (store1 \<lparr> orders := [order1 \<lparr> status := Shipped \<rparr>] \<rparr>))
   \<and> \<not> spec_stale_pending (now calm_world) (order1 \<lparr> status := Shipped \<rparr>)
   \<and> \<not> spec_past_harvest (now calm_world) (store1 \<lparr> orders := [order1 \<lparr> status := Shipped \<rparr>] \<rparr>)
         (order1 \<lparr> status := Shipped \<rparr>)
   \<and> order_by_id (snd (check_farm_confirm ''POST'' calm_world
          (store1 \<lparr> orders := [order1 \<lparr> status := Shipped \<rparr>] \<rparr>))) ''o1''
       = Some (order1 \<lparr> status := Shipped \<rparr>)
   \<and> order_by_id (snd (auto_cancel_orders ''POST'' calm_world
          (store1 \<lparr> orders := [order1 \<lparr> status := Shipped \<rparr>] \<rparr>))) ''o1''
       = Some (order1 \<lparr> status := Shipped \<rparr>)"
proof -
  let ?r = "order1 \<lparr> status := Shipped \<rparr>"
  let ?s = "store1 \<lparr> orders := [?r] \<rparr>"
  have d: "distinct (map o_id (orders ?s))" and m: "?r \<in> set (orders ?s)"
    by simp_all
  have a: "\<not> spec_stale_pending (now calm_world) ?r"
    by (simp add: spec_stale_pending_def)
  have b: "\<not> spec_past_harvest (now calm_world) ?s ?r"
    by (simp add: spec_past_harvest_def)
  have i: "o_id ?r = ''o1''" by (simp add: order1_def)
  show ?thesis
    using other_orders_unchanged [OF d m a b, of "''POST''"] d m a b i by simp
qed

section \<open>Running a sweep again\<close>

lemma updated_ids_all:
  "\<forall>i\<in>set is. update_error w i = None \<Longrightarrow> updated_ids w is = is"
  by (simp add: updated_ids_def)

lemma expired_row_not_expired: "\<not> is_expired t (expired_row w r)"
  by (simp add: is_expired_def)

lemma past_harvest_row_not_past_harvest: "\<not> is_past_harvest t s (past_harvest_row w r)"
  by (simp add: is_past_harvest_def)

lemma filter_map_none:
  "(\<And>y. y \<in> set xs \<Longrightarrow> \<not> P (g y)) \<Longrightarrow> filter P (map g xs) = []"
  by (induction xs) auto

lemma no_row_expired_after:
  assumes "\<forall>i\<in>set (map fst (fetch_expired t s)). update_error w i = None"
  shows "filter (is_expired t) (orders (cancel_expired w (fetch_expired t s) s)) = []"
proof -
  have ids: "updated_ids w (map fst (fetch_expired t s)) = map o_id (filter (is_expired t) (orders s))"
    using assms by (simp add: updated_ids_all fetch_expired_ids)
  have "\<And>y. y \<in> set (orders s) \<Longrightarrow>
          \<not> is_expired t (if o_id y \<in> set (map o_id (filter (is_expired t) (orders s)))
                            then expired_row w y else y)"
  proof -
    fix y assume y: "y \<in> set (orders s)"
    show "\<not> is_expired t (if o_id y \<in> set (map o_id (filter (is_expired t) (orders s)))
                            then expired_row w y else y)"
    proof (cases "o_id y \<in> set (map o_id (filter (is_expired t) (orders s)))")
      case True
      then show ?thesis by (simp only: if_True expired_row_not_expired not_False_eq_True)
    next
      case False
      have "\<not> is_expired t y"
      proof
        assume "is_expired t y"
        with y have "y \<in> set (filter (is_expired t) (orders s))" by simp
        then have "o_id y \<in> o_id ` set (filter (is_expired t) (orders s))" by (rule imageI)
        with False show False by simp
      qed
      with False show ?thesis by (simp only: if_False not_False_eq_True)
    qed
  qed
  then have "filter (is_expired t)
      (map (\<lambda>y. if o_id y \<in> set (map o_id (filter (is_expired t) (orders s)))
                then expired_row w y else y) (orders s)) = []"
    by (rule filter_map_none)
  then show ?thesis
    unfolding cancel_expired_orders ids .
qed

lemma is_past_harvest_after:
  "products s' = products s \<Longrightarrow> is_past_harvest t s' r = is_past_harvest t s r"
  by (simp add: is_past_harvest_def linked_product_def)

lemma no_row_past_harvest_after:
  assumes "\<forall>i\<in>set (map fst (fetch_past_harvest t s)). update_error w i = None"
  shows "filter (is_past_harvest t (cancel_past_harvest w (fetch_past_harvest t s) s))
           (orders (cancel_past_harvest w (fetch_past_harvest t s) s)) = []"
proof -
  have ids: "updated_ids w (map fst (fetch_past_harvest t s))
               = map o_id (filter (is_past_harvest t s) (orders s))"
    using assms by (simp add: updated_ids_all fetch_past_harvest_ids)
  have same: "is_past_harvest t (cancel_past_harvest w (fetch_past_harvest t s) s) = is_past_harvest t s"
    by (rule ext, rule is_past_harvest_after) simp
  have "\<And>y. y \<in> set (orders s) \<Longrightarrow>
          \<not> is_past_harvest t s (if o_id y \<in> set (map o_id (filter (is_past_harvest t s) (orders s)))
                            then past_harvest_row w y else y)"
  proof -
    fix y assume y: "y \<in> set (orders s)"
    show "\<not> is_past_harvest t s (if o_id y \<in> set (map o_id (filter (is_past_harvest t s) (orders s)))
                            then past_harvest_row w y else y)"
    proof (cases "o_id y \<in> set (map o_id (filter (is_past_harvest t s) (orders s)))")
      case True
      then show ?thesis by (simp only: if_True past_harvest_row_not_past_harvest not_False_eq_True)
    next
      case False
      have "\<not> is_past_harvest t s y"
      proof
        assume "is_past_harvest t s y"
        with y have "y \<in> set (filter (is_past_harvest t s) (orders s))" by simp
        then have "o_id y \<in> o_id ` set (filter (is_past_harvest t s) (orders s))" by (rule imageI)
        with False show False by simp
      qed
      with False show ?thesis by (simp only: if_False not_False_eq_True)
    qed
  qed
  then have "filter (is_past_harvest t s)
      (map (\<lambda>y. if o_id y \<in> set (map o_id (filter (is_past_harvest t s) (orders s)))
                then past_harvest_row w y else y) (orders s)) = []"
    by (rule filter_map_none)
  then show ?thesis
    unfolding same cancel_past_harvest_orders ids .
qed

lemma rerun_expired:
  assumes "fetch_error w1 = None"
    and "\<forall>i\<in>set (map fst (fetch_expired (now w1) s)). update_error w1 i = None"
    and "now w2 = now w1"
  shows "snd (check_farm_confirm_job w2 (snd (check_farm_confirm_job w1 s)))
           = snd (check_farm_confirm_job w1 s)"
proof -
  let ?s1 = "cancel_expired w1 (fetch_expired (now w1) s) s"
  have "fetch_expired (now w2) ?s1 = []"
    using no_row_expired_after [OF assms(2)] assms(3) by (simp add: fetch_expired_def)
  then have "snd (check_farm_confirm_job w2 ?s1) = ?s1"
    by (cases "fetch_error w2") (simp_all add: check_farm_confirm_job_def Let_def)
  then show ?thesis using assms(1) by (simp add: job_store_expired)
qed

lemma rerun_past_harvest:
  assumes "fetch_error w1 = None"
    and "\<forall>i\<in>set (map fst (fetch_past_harvest (now w1) s)). update_error w1 i = None"
    and "now w2 = now w1"
  shows "snd (auto_cancel_orders_job w2 (snd (auto_cancel_orders_job w1 s)))
           = snd (auto_cancel_orders_job w1 s)"
proof -
  let ?s1 = "cancel_past_harvest w1 (fetch_past_harvest (now w1) s) s"
  have "fetch_past_harvest (now w2) ?s1 = []"
    using no_row_past_harvest_after [OF assms(2)] assms(3) by (simp add: fetch_past_harvest_def)
  then have "snd (auto_cancel_orders_job w2 ?s1) = ?s1"
    by (cases "fetch_error w2") (simp_all add: auto_cancel_orders_job_def Let_def)
  then show ?thesis using assms(1) by (simp add: job_store_past_harvest)
qed

text \<open>
  Claim C5, as amended. When the first run of a sweep job fetched its rows and
  the store accepted the update of every one of them, a second run of the same
  job at the same clock reading leaves the store exactly as the first run left
  it, whatever the store answers this time: it cancels no further order and
  emits no further notification.
\<close>

theorem second_run_changes_nothing:
  assumes "fetch_error w1 = None" and "now w2 = now w1"
  shows "((\<forall>i\<in>set (map fst (fetch_expired (now w1) s)). update_error w1 i = None) \<longrightarrow>
            snd (check_farm_confirm_job w2 (snd (check_farm_confirm_job w1 s)))
              = snd (check_farm_confirm_job w1 s)
            \<and> emitted (snd (check_farm_confirm_job w1 s))
                 (snd (check_farm_confirm_job w2 (snd (check_farm_confirm_job w1 s)))) = [])
         \<and> ((\<forall>i\<in>set (map fst (fetch_past_harvest (now w1) s)). update_error w1 i = None) \<longrightarrow>
            snd (auto_cancel_orders_job w2 (snd (auto_cancel_orders_job w1 s)))
              = snd (auto_cancel_orders_job w1 s)
            \<and> emitted (snd (auto_cancel_orders_job w1 s))
                 (snd (auto_cancel_orders_job w2 (snd (auto_cancel_orders_job w1 s)))) = [])"
proof (intro conjI impI)
  assume a: "\<forall>i\<in>set (map fst (fetch_expired (now w1) s)). update_error w1 i = None"
  show r: "snd (check_farm_confirm_job w2 (snd (check_farm_confirm_job w1 s)))
          = snd (check_farm_confirm_job w1 s)"
    using assms(1) a assms(2) by (rule rerun_expired)
  show "emitted (snd (check_farm_confirm_job w1 s))
          (snd (check_farm_confirm_job w2 (snd (check_farm_confirm_job w1 s)))) = []"
    unfolding r by (rule emitted_same)
next
  assume a: "\<forall>i\<in>set (map fst (fetch_past_harvest (now w1) s)). update_error w1 i = None"
  show r: "snd (auto_cancel_orders_job w2 (snd (auto_cancel_orders_job w1 s)))
          = snd (auto_cancel_orders_job w1 s)"
    using assms(1) a assms(2) by (rule rerun_past_harvest)
  show "emitted (snd (auto_cancel_orders_job w1 s))
          (snd (auto_cancel_orders_job w2 (snd (auto_cancel_orders_job w1 s)))) = []"
    unfolding r by (rule emitted_same)
qed

text \<open>The amended claim C5 at the example: both jobs run twice in a world without failures.\<close>

theorem second_run_changes_nothing_witness:
  "fetch_error calm_world = None \<and> now calm_world = now calm_world
   \<and> list_all (\<lambda>i. update_error calm_world i = None)
         (map fst (fetch_expired (now calm_world) store1))
   \<and> list_all (\<lambda>i. update_error calm_world i = None)
         (map fst (fetch_past_harvest (now calm_world) store1))
   \<and> snd (check_farm_confirm_job calm_world (snd (check_farm_confirm_job calm_world store1)))
       = snd (check_farm_confirm_job calm_world store1)
   \<and> snd (auto_cancel_orders_job calm_world (snd (auto_cancel_orders_job calm_world store1)))
       = snd (auto_cancel_orders_job calm_world store1)
   \<and> map status (orders (snd (check_farm_confirm_job calm_world store1))) = [Cancelled]"
proof -
  have f: "fetch_error calm_world = None" by (simp add: example_world_fields)
  have c: "map status (orders (snd (check_farm_confirm_job calm_world store1))) = [Cancelled]"
    by (simp add: example_calm_expired)
  show ?thesis
    using second_run_changes_nothing [OF f refl, of store1] f c
    by (simp add: example_world_fields list_all_iff)
qed

text \<open>
  Claim C5 as stated fails after a run in which the store rejected an update, and
  after one whose fetch failed: the row is still pending, and a second run at the
  same clock reading, its calls now accepted, cancels it and emits its
  notifications.
\<close>

theorem second_run_counterexample:
  "now calm_world = now update_failing_world \<and> now calm_world = now fetch_failing_world
   \<and> map status (orders store1) = [Pending]
   \<and> snd (check_farm_confirm_job update_failing_world store1) = store1
   \<and> map status (orders (snd (check_farm_confirm_job calm_world
         (snd (check_farm_confirm_job update_failing_world store1))))) = [Cancelled]
   \<and> length (emitted (snd (check_farm_confirm_job update_failing_world store1))
        (snd (check_farm_confirm_job calm_world
           (snd (check_farm_confirm_job update_failing_world store1))))) = 2
   \<and> snd (auto_cancel_orders_job fetch_failing_world store1) = store1
   \<and> map status (orders (snd (auto_cancel_orders_job calm_world
         (snd (auto_cancel_orders_job fetch_failing_world store1))))) = [Cancelled]
   \<and> length (emitted (snd (auto_cancel_orders_job fetch_failing_world store1))
        (snd (auto_cancel_orders_job calm_world
           (snd (auto_cancel_orders_job fetch_failing_world store1))))) = 1"
  by (simp add: example_failing_expired example_calm_expired example_calm_past_harvest
      job_fetch_failed_past_harvest example_world_fields)
     (simp add: store1_def order1_def emitted_def)

section \<open>The count in the response\<close>

lemma show_nat_1: "show_nat (Suc 0) = ''1''"
  by (subst show_nat.simps) (simp add: digit_char_def)

text \<open>
  Claim C4 fails on the code. The store holds one order that both sweeps select,
  and rejects its update. Each handler answers \<^verbatim>\<open>success: true\<close> with a message
  that says one order was cancelled, while the run has cancelled none: the
  number in the message is the number of rows fetched, not of rows updated.
\<close>

theorem reported_count_is_fetched_count:
  "fst (check_farm_confirm ''POST'' update_failing_world store1)
     = \<lparr> status_code = 200, headers = json_headers,
         body = SuccessBody True ''Cancelled 1 unconfirmed orders'' \<rparr>
   \<and> cancelled_orders (snd (check_farm_confirm ''POST'' update_failing_world store1)) = []
   \<and> fst (auto_cancel_orders ''POST'' update_failing_world store1)
     = \<lparr> status_code = 200, headers = json_headers,
         body = SuccessBody True ''Cancelled 1 orders'' \<rparr>
   \<and> cancelled_orders (snd (auto_cancel_orders ''POST'' update_failing_world store1)) = []"
  by (simp add: check_farm_confirm_def auto_cancel_orders_def example_failing_expired
      example_failing_past_harvest success_response_def expired_message_def window_message_def
      show_nat_1 cancelled_orders_def)
     (simp add: store1_def order1_def)

text \<open>In general the message carries the number of rows the filter selected.\<close>

lemma expired_job_message:
  "fetch_error w = None \<Longrightarrow>
   body (fst (check_farm_confirm_job w s))
     = SuccessBody True (expired_message (length (filter (is_expired (now w)) (orders s))))"
  by (simp add: check_farm_confirm_job_def Let_def success_response_def fetch_expired_def)

lemma past_harvest_job_message:
  "fetch_error w = None \<Longrightarrow>
   body (fst (auto_cancel_orders_job w s))
     = SuccessBody True (window_message (length (filter (is_past_harvest (now w) s) (orders s))))"
  by (simp add: auto_cancel_orders_job_def Let_def success_response_def fetch_past_harvest_def)

section \<open>Failures\<close>

text \<open>
  Claim C6, as amended. In both sweep jobs, when the fetch has succeeded, a row
  whose update the store rejects is left exactly as it was and no notification
  is emitted about it, while every other selected row whose update is accepted
  is cancelled and its notifications are sent as usual (those the store accepts
  are emitted), whether it comes before or after the failing one, and the
  response is the success response. When the initial fetch
  fails, the run changes nothing and answers with status 500 and a JSON body
  \<^verbatim>\<open>{ error }\<close> that carries the message of the error if the error is an instance
  of \<^verbatim>\<open>Error\<close>, and the text \<^verbatim>\<open>Unknown error\<close> otherwise. Order ids are unique.
\<close>

theorem sweep_failures:
  assumes "distinct (map o_id (orders s))" and "r \<in> set (orders s)" and "r' \<in> set (orders s)"
  shows "(fetch_error w = None \<and> update_error w (o_id r) \<noteq> None \<longrightarrow>
            order_by_id (snd (check_farm_confirm_job w s)) (o_id r) = Some r
            \<and> about_order (o_id r) (emitted s (snd (check_farm_confirm_job w s))) = []
            \<and> order_by_id (snd (auto_cancel_orders_job w s)) (o_id r) = Some r
            \<and> about_order (o_id r) (emitted s (snd (auto_cancel_orders_job w s))) = []
            \<and> status_code (fst (check_farm_confirm_job w s)) = 200
            \<and> status_code (fst (auto_cancel_orders_job w s)) = 200)
       \<and> (fetch_error w = None \<and> update_error w (o_id r') = None \<and> is_expired (now w) r' \<longrightarrow>
            order_by_id (snd (check_farm_confirm_job w s)) (o_id r') = Some (expired_row w r')
            \<and> about_order (o_id r') (emitted s (snd (check_farm_confirm_job w s)))
                = accepted w s [buyer_expired_notification (o_id r') (o_user_id r'),
                                farm_expired_notification (o_id r') (o_farm_id r')])
       \<and> (fetch_error w = None \<and> update_error w (o_id r') = None \<and> is_past_harvest (now w) s r' \<longrightarrow>
            order_by_id (snd (auto_cancel_orders_job w s)) (o_id r') = Some (past_harvest_row w r')
            \<and> about_order (o_id r') (emitted s (snd (auto_cancel_orders_job w s)))
                = accepted w s [buyer_window_notification (o_id r') (o_user_id r')])
       \<and> (\<forall>e. fetch_error w = Some e \<longrightarrow>
            check_farm_confirm_job w s
              = (\<lparr> status_code = 500, headers = json_headers,
                    body = ErrorBody (case e of ErrorInstance m \<Rightarrow> m
                                              | ErrorObject m \<Rightarrow> ''Unknown error'') \<rparr>, s)
            \<and> auto_cancel_orders_job w s
              = (\<lparr> status_code = 500, headers = json_headers,
                    body = ErrorBody (case e of ErrorInstance m \<Rightarrow> m
                                              | ErrorObject m \<Rightarrow> ''Unknown error'') \<rparr>, s))"
proof (intro conjI impI allI)
  assume h: "fetch_error w = None \<and> update_error w (o_id r) \<noteq> None"
  then have f: "fetch_error w = None" and "update_error w (o_id r) \<noteq> None" by simp_all
  then obtain x where u: "update_error w (o_id r) = Some x" by auto
  show "order_by_id (snd (check_farm_confirm_job w s)) (o_id r) = Some r"
    using assms(1,2) f u by (simp add: job_store_expired expired_run_row)
  show "about_order (o_id r) (emitted s (snd (check_farm_confirm_job w s))) = []"
    using assms(1,2) f u by (simp add: job_store_expired expired_run_notices expired_notices_def)
  show "order_by_id (snd (auto_cancel_orders_job w s)) (o_id r) = Some r"
    using assms(1,2) f u by (simp add: job_store_past_harvest past_harvest_run_row)
  show "about_order (o_id r) (emitted s (snd (auto_cancel_orders_job w s))) = []"
    using assms(1,2) f u
    by (simp add: job_store_past_harvest past_harvest_run_notices window_notices_def)
  show "status_code (fst (check_farm_confirm_job w s)) = 200"
    using f by (simp add: check_farm_confirm_job_def Let_def success_response_def)
  show "status_code (fst (auto_cancel_orders_job w s)) = 200"
    using f by (simp add: auto_cancel_orders_job_def Let_def success_response_def)
next
  assume h: "fetch_error w = None \<and> update_error w (o_id r') = None \<and> is_expired (now w) r'"
  then have f: "fetch_error w = None" and u: "update_error w (o_id r') = None"
    and e: "is_expired (now w) r'" by simp_all
  show "order_by_id (snd (check_farm_confirm_job w s)) (o_id r') = Some (expired_row w r')"
    using assms(1,3) f u e by (simp add: job_store_expired expired_run_row)
  show "about_order (o_id r') (emitted s (snd (check_farm_confirm_job w s)))
          = accepted w s [buyer_expired_notification (o_id r') (o_user_id r'),
                          farm_expired_notification (o_id r') (o_farm_id r')]"
    using assms(1,3) f u e
    by (simp add: job_store_expired expired_run_notices expired_notices_def)
next
  assume h: "fetch_error w = None \<and> update_error w (o_id r') = None \<and> is_past_harvest (now w) s r'"
  then have f: "fetch_error w = None" and u: "update_error w (o_id r') = None"
    and e: "is_past_harvest (now w) s r'" by simp_all
  show "order_by_id (snd (auto_cancel_orders_job w s)) (o_id r') = Some (past_harvest_row w r')"
    using assms(1,3) f u e by (simp add: job_store_past_harvest past_harvest_run_row)
  show "about_order (o_id r') (emitted s (snd (auto_cancel_orders_job w s)))
          = accepted w s [buyer_window_notification (o_id r') (o_user_id r')]"
    using assms(1,3) f u e
    by (simp add: job_store_past_harvest past_harvest_run_notices window_notices_def)
next
  fix e assume f: "fetch_error w = Some e"
  show "check_farm_confirm_job w s
          = (\<lparr> status_code = 500, headers = json_headers,
                body = ErrorBody (case e of ErrorInstance m \<Rightarrow> m
                                          | ErrorObject m \<Rightarrow> ''Unknown error'') \<rparr>, s)"
    using f by (cases e) (simp_all add: job_fetch_failed_expired error_response_def)
  show "auto_cancel_orders_job w s
          = (\<lparr> status_code = 500, headers = json_headers,
                body = ErrorBody (case e of ErrorInstance m \<Rightarrow> m
                                          | ErrorObject m \<Rightarrow> ''Unknown error'') \<rparr>, s)"
    using f by (cases e) (simp_all add: job_fetch_failed_past_harvest error_response_def)
qed

lemma example2_facts:
  "distinct (map o_id (orders store2))" "order1 \<in> set (orders store2)" "order2 \<in> set (orders store2)"
  "o_id order1 = ''o1''" "o_id order2 = ''o2''" "o_user_id order2 = ''u2''" "o_farm_id order2 = ''f1''"
  "is_expired 2592000000 order2" "is_expired 2592000000 order1"
  by (simp_all add: store2_def store1_def order2_def order1_def is_expired_def two_days_ago_def)

lemma first_update_failing_fields:
  "now first_update_failing_world = 2592000000" "fetch_error first_update_failing_world = None"
  "update_error first_update_failing_world ''o1'' = Some (ErrorObject ''timeout'')"
  "update_error first_update_failing_world ''o2'' = None"
  "notify_error first_update_failing_world n = None"
  by (simp_all add: first_update_failing_world_def calm_world_def)

lemma example2_accepted:
  "accepted first_update_failing_world store2
       [buyer_expired_notification ''o2'' ''u2'', farm_expired_notification ''o2'' ''f1'']
     = [buyer_expired_notification ''o2'' ''u2'', farm_expired_notification ''o2'' ''f1'']"
  by (simp add: accepted_def notification_accepted_def first_update_failing_fields
      buyer_expired_notification_def farm_expired_notification_def
      store2_def store1_def order1_def order2_def)

text \<open>
  The amended claim C6 at the examples: of two stale orders the first is rejected
  and stays pending while the second is cancelled and notified; and a fetch that
  fails with an object that is no \<^verbatim>\<open>Error\<close> yields status 500 and \<^verbatim>\<open>Unknown error\<close>.
\<close>

theorem sweep_failures_witness:
  "distinct (map o_id (orders store2)) \<and> order1 \<in> set (orders store2) \<and> order2 \<in> set (orders store2)
   \<and> fetch_error first_update_failing_world = None
   \<and> update_error first_update_failing_world (o_id order1) \<noteq> None
   \<and> update_error first_update_failing_world (o_id order2) = None
   \<and> is_expired (now first_update_failing_world) order2
   \<and> order_by_id (snd (check_farm_confirm_job first_update_failing_world store2)) ''o1'' = Some order1
   \<and> about_order ''o1'' (emitted store2 (snd (check_farm_confirm_job first_update_failing_world store2))) = []
   \<and> status_code (fst (check_farm_confirm_job first_update_failing_world store2)) = 200
   \<and> order_by_id (snd (check_farm_confirm_job first_update_failing_world store2)) ''o2''
       = Some (expired_row first_update_failing_world order2)
   \<and> about_order ''o2'' (emitted store2 (snd (check_farm_confirm_job first_update_failing_world store2)))
       = [buyer_expired_notification ''o2'' ''u2'', farm_expired_notification ''o2'' ''f1'']
   \<and> fetch_error fetch_failing_world = Some (ErrorObject ''connection refused'')
   \<and> check_farm_confirm_job fetch_failing_world store2
       = (\<lparr> status_code = 500, headers = json_headers, body = ErrorBody ''Unknown error'' \<rparr>, store2)
   \<and> auto_cancel_orders_job fetch_failing_world store2
       = (\<lparr> status_code = 500, headers = json_headers, body = ErrorBody ''Unknown error'' \<rparr>, store2)"
  using sweep_failures [OF example2_facts(1,2,3), of first_update_failing_world]
    sweep_failures [OF example2_facts(1,2,3), of fetch_failing_world]
  by (simp add: example2_facts first_update_failing_fields example_world_fields example2_accepted)

text \<open>
  Claim C6 as stated fails for its last part: the fetch fails with an error object
  whose message is \<^verbatim>\<open>connection refused\<close>, the response has status 500, and its
  body carries \<^verbatim>\<open>Unknown error\<close>, not that message.
\<close>

theorem fetch_failure_message_counterexample:
  "fetch_error fetch_failing_world = Some (ErrorObject ''connection refused'')
   \<and> error_message (ErrorObject ''connection refused'') = ''connection refused''
   \<and> fst (check_farm_confirm_job fetch_failing_world store1)
       = \<lparr> status_code = 500, headers = json_headers, body = ErrorBody ''Unknown error'' \<rparr>
   \<and> body (fst (check_farm_confirm_job fetch_failing_world store1)) \<noteq> ErrorBody ''connection refused''
   \<and> fst (auto_cancel_orders_job fetch_failing_world store1)
       = \<lparr> status_code = 500, headers = json_headers, body = ErrorBody ''Unknown error'' \<rparr>
   \<and> body (fst (auto_cancel_orders_job fetch_failing_world store1)) \<noteq> ErrorBody ''connection refused''"
  by (simp add: example_world_fields job_fetch_failed_expired job_fetch_failed_past_harvest
      error_response_def)

section \<open>Shipping needs a tracking number\<close>

lemma trim_empty_iff: "trim t = [] \<longleftrightarrow> spec_blank t"
proof -
  let ?d = "dropWhile is_js_whitespace t"
  have "trim t = [] \<longleftrightarrow> (\<forall>x\<in>set ?d. is_js_whitespace x)"
    by (simp add: trim_def dropWhile_eq_Nil_conv)
  also have "\<dots> \<longleftrightarrow> ?d = []"
  proof
    assume a: "\<forall>x\<in>set ?d. is_js_whitespace x"
    show "?d = []"
    proof (rule ccontr)
      assume n: "?d \<noteq> []"
      then have "\<not> is_js_whitespace (hd ?d)" by (rule hd_dropWhile)
      moreover have "hd ?d \<in> set ?d" using n by simp
      ultimately show False using a by blast
    qed
  next
    assume "?d = []"
    then show "\<forall>x\<in>set ?d. is_js_whitespace x" by (auto dest: set_dropWhileD)
  qed
  also have "\<dots> \<longleftrightarrow> spec_blank t"
    by (simp add: dropWhile_eq_Nil_conv spec_blank_def list_all_iff)
  finally show ?thesis .
qed

lemma shipped_updates:
  "status_updates Shipped t tn = (if trim tn = [] then None else Some (shipped_patch t tn))"
  by (simp add: status_updates_def)

lemma shipped_patch_fields:
  "set_status (shipped_patch t tn) = Some Shipped"
  "set_tracking_number (shipped_patch t tn) = Some (trim tn)"
  by (simp_all add: shipped_patch_def no_patch_def)

lemma shipped_row:
  "status (update_row (shipped_patch t tn) c r) = Shipped
   \<and> tracking_number (update_row (shipped_patch t tn) c r) = Some (trim tn)"
  by (simp add: shipped_patch_def update_row_def merge_patch_def no_patch_def keep_def)

lemma updateStatus_blank:
  assumes "order_st st = Some ord" and "spec_blank (trackingNumber st)"
  shows "updateStatus w Shipped st s
           = \<lparr> page = st \<lparr> updating := False \<rparr>, stored = s,
               shown = Some (ToastError ''Please enter a tracking number''), sent = None \<rparr>"
  using assms by (simp add: updateStatus_def shipped_updates trim_empty_iff)

lemma updateStatus_filled:
  assumes "order_st st = Some ord" and "trim (trackingNumber st) \<noteq> []"
  shows "sent (updateStatus w Shipped st s)
           = Some (o_id ord, shipped_patch (update_clock w (o_id ord)) (trackingNumber st))
         \<and> orders (stored (updateStatus w Shipped st s))
           = (case update_error w (o_id ord) of
                Some e \<Rightarrow> orders s
              | None \<Rightarrow> map (\<lambda>r. if o_id r = o_id ord \<and> may_update w r
                   then update_row (shipped_patch (update_clock w (o_id ord)) (trackingNumber st))
                          (db_clock w (o_id ord)) r
                   else r) (orders s))"
  using assms
  by (cases "update_error w (o_id ord)")
     (simp_all add: updateStatus_def shipped_updates update_own_orders_def)

lemma updateStatus_sent:
  assumes "sent (updateStatus w Shipped st s) = Some (i, p)"
  shows "set_status p = Some Shipped \<and> set_tracking_number p = Some (trim (trackingNumber st))
         \<and> trim (trackingNumber st) \<noteq> []"
proof (cases "order_st st")
  case None
  with assms show ?thesis by (simp add: updateStatus_def)
next
  case (Some ord)
  show ?thesis
  proof (cases "trim (trackingNumber st) = []")
    case True
    with assms Some show ?thesis by (simp add: updateStatus_def shipped_updates)
  next
    case False
    from updateStatus_filled [OF Some False, of w s] assms False
    show ?thesis by (auto simp: shipped_patch_fields)
  qed
qed

lemma updateStatus_rows:
  assumes "r \<in> set (orders (stored (updateStatus w Shipped st s)))"
  shows "r \<in> set (orders s)
         \<or> (status r = Shipped \<and> tracking_number r = Some (trim (trackingNumber st))
             \<and> trim (trackingNumber st) \<noteq> [])"
proof (cases "order_st st")
  case None
  with assms show ?thesis by (simp add: updateStatus_def)
next
  case (Some ord)
  show ?thesis
  proof (cases "trim (trackingNumber st) = []")
    case True
    with assms Some show ?thesis by (simp add: updateStatus_def shipped_updates)
  next
    case False
    note f = updateStatus_filled [OF Some False, of w s]
    show ?thesis
    proof (cases "update_error w (o_id ord)")
      case (Some e)
      with f assms show ?thesis by simp
    next
      case None
      with f assms obtain r0 where r0: "r0 \<in> set (orders s)"
        and r: "r = (if o_id r0 = o_id ord \<and> may_update w r0
                 then update_row (shipped_patch (update_clock w (o_id ord)) (trackingNumber st))
                        (db_clock w (o_id ord)) r0
                 else r0)"
        by auto
      show ?thesis
      proof (cases "o_id r0 = o_id ord \<and> may_update w r0")
        case True
        with r False show ?thesis by (simp add: shipped_row)
      next
        case False
        with r r0 show ?thesis by simp
      qed
    qed
  qed
qed

lemma shipment_patch_row:
  "status (update_row (no_patch \<lparr> set_carrier := Some c, set_tracking_number := Some tn,
             set_shipped_at := Some t, set_status := Some Shipped \<rparr>) k r) = Shipped
   \<and> tracking_number (update_row (no_patch \<lparr> set_carrier := Some c, set_tracking_number := Some tn,
             set_shipped_at := Some t, set_status := Some Shipped \<rparr>) k r) = Some tn"
  by (simp add: update_row_def merge_patch_def no_patch_def keep_def)

lemma confirm_shipment_blank:
  assumes "spec_blank (tracking st)"
  shows "confirm_shipment_click w st s = \<lparr> page = st, stored = s, shown = None, sent = None \<rparr>"
  using assms by (cases "shippingId st") (simp_all add: confirm_shipment_click_def trim_empty_iff)

lemma confirm_shipment_enabled:
  assumes "shippingId st = Some i" and "trim (carrier_st st) \<noteq> []" and "trim (tracking st) \<noteq> []"
  shows "sent (confirm_shipment_click w st s)
           = Some (i, no_patch \<lparr> set_carrier := Some (trim (carrier_st st)),
                       set_tracking_number := Some (trim (tracking st)),
                       set_shipped_at := Some (update_clock w i),
                       set_status := Some Shipped \<rparr>)
         \<and> orders (stored (confirm_shipment_click w st s))
           = (case update_error w i of
                Some e \<Rightarrow> orders s
              | None \<Rightarrow> map (\<lambda>r. if o_id r = i \<and> may_update w r
                   then update_row (no_patch \<lparr> set_carrier := Some (trim (carrier_st st)),
                       set_tracking_number := Some (trim (tracking st)),
                       set_shipped_at := Some (update_clock w i),
                       set_status := Some Shipped \<rparr>) (db_clock w i) r
                   else r) (orders s))"
  using assms
  by (cases "update_error w i")
     (simp_all add: confirm_shipment_click_def updateOrder_def Let_def no_patch_def keep_def
        update_own_orders_def)

lemma confirm_shipment_sent:
  assumes "sent (confirm_shipment_click w st s) = Some (i, p)"
  shows "set_status p = Some Shipped \<and> set_tracking_number p = Some (trim (tracking st))
         \<and> trim (tracking st) \<noteq> []"
proof (cases "shippingId st")
  case None
  with assms show ?thesis by (simp add: confirm_shipment_click_def)
next
  case (Some j)
  show ?thesis
  proof (cases "trim (carrier_st st) = [] \<or> trim (tracking st) = []")
    case True
    with assms Some show ?thesis by (simp add: confirm_shipment_click_def)
  next
    case False
    then have c: "trim (carrier_st st) \<noteq> []" and t: "trim (tracking st) \<noteq> []" by simp_all
    from confirm_shipment_enabled [OF Some c t, of w s] assms t
    show ?thesis by auto
  qed
qed

lemma confirm_shipment_rows:
  assumes "r \<in> set (orders (stored (confirm_shipment_click w st s)))"
  shows "r \<in> set (orders s)
         \<or> (status r = Shipped \<and> tracking_number r = Some (trim (tracking st))
             \<and> trim (tracking st) \<noteq> [])"
proof (cases "shippingId st")
  case None
  with assms show ?thesis by (simp add: confirm_shipment_click_def)
next
  case (Some i)
  show ?thesis
  proof (cases "trim (carrier_st st) = [] \<or> trim (tracking st) = []")
    case True
    with assms Some show ?thesis by (simp add: confirm_shipment_click_def)
  next
    case False
    then have c: "trim (carrier_st st) \<noteq> []" and t: "trim (tracking st) \<noteq> []" by simp_all
    note en = confirm_shipment_enabled [OF Some c t, of w s]
    show ?thesis
    proof (cases "update_error w i")
      case (Some e)
      with en assms show ?thesis by simp
    next
      case None
      with en assms obtain r0 where r0: "r0 \<in> set (orders s)"
        and r: "r = (if o_id r0 = i \<and> may_update w r0
                 then update_row (no_patch \<lparr> set_carrier := Some (trim (carrier_st st)),
                       set_tracking_number := Some (trim (tracking st)),
                       set_shipped_at := Some (update_clock w i),
                       set_status := Some Shipped \<rparr>) (db_clock w i) r0
                 else r0)"
        by auto
      show ?thesis
      proof (cases "o_id r0 = i \<and> may_update w r0")
        case True
        with r t show ?thesis by (simp add: shipment_patch_row)
      next
        case False
        with r r0 show ?thesis by simp
      qed
    qed
  qed
qed

text \<open>
  The two ship operations on the orders table trim the field before they test and
  send it. In the farm's order page, \<^verbatim>\<open>updateStatus("shipped")\<close> with a tracking
  number that is empty or consists of white space returns with the toast
  \<^verbatim>\<open>Please enter a tracking number\<close>, the store as it was and no write sent; in
  the ship modal of the farm's order list a click on the confirm button with such
  a tracking number does nothing. Whenever either operation does send a write,
  the patch sets the status to shipped together with the trimmed tracking number,
  which is not empty; so every row of the orders table afterwards is a row that
  was there before or a shipped row with a non-empty tracking number.
\<close>

lemma trimming_ship_operations:
  "(order_st st = Some ord \<and> spec_blank (trackingNumber st) \<longrightarrow>
      stored (updateStatus w Shipped st s) = s
      \<and> sent (updateStatus w Shipped st s) = None
      \<and> shown (updateStatus w Shipped st s) = Some (ToastError ''Please enter a tracking number''))
   \<and> (spec_blank (tracking fo) \<longrightarrow>
      stored (confirm_shipment_click w fo s) = s \<and> sent (confirm_shipment_click w fo s) = None)
   \<and> (\<forall>i p. sent (updateStatus w Shipped st s) = Some (i, p) \<longrightarrow>
        set_status p = Some Shipped
        \<and> set_tracking_number p = Some (trim (trackingNumber st))
        \<and> \<not> spec_blank (trackingNumber st) \<and> trim (trackingNumber st) \<noteq> [])
   \<and> (\<forall>i p. sent (confirm_shipment_click w fo s) = Some (i, p) \<longrightarrow>
        set_status p = Some Shipped
        \<and> set_tracking_number p = Some (trim (tracking fo))
        \<and> \<not> spec_blank (tracking fo) \<and> trim (tracking fo) \<noteq> [])
   \<and> (\<forall>r\<in>set (orders (stored (updateStatus w Shipped st s))).
        r \<in> set (orders s)
        \<or> (status r = Shipped \<and> tracking_number r = Some (trim (trackingNumber st))
            \<and> trim (trackingNumber st) \<noteq> []))
   \<and> (\<forall>r\<in>set (orders (stored (confirm_shipment_click w fo s))).
        r \<in> set (orders s)
        \<or> (status r = Shipped \<and> tracking_number r = Some (trim (tracking fo))
            \<and> trim (tracking fo) \<noteq> []))"
proof (intro conjI impI allI ballI)
  assume a: "order_st st = Some ord \<and> spec_blank (trackingNumber st)"
  then have e: "updateStatus w Shipped st s
           = \<lparr> page = st \<lparr> updating := False \<rparr>, stored = s,
               shown = Some (ToastError ''Please enter a tracking number''), sent = None \<rparr>"
    by (simp add: updateStatus_blank)
  show "stored (updateStatus w Shipped st s) = s" by (simp add: e)
  show "sent (updateStatus w Shipped st s) = None" by (simp add: e)
  show "shown (updateStatus w Shipped st s) = Some (ToastError ''Please enter a tracking number'')"
    by (simp add: e)
next
  assume a: "spec_blank (tracking fo)"
  show "stored (confirm_shipment_click w fo s) = s" by (simp add: confirm_shipment_blank [OF a])
  show "sent (confirm_shipment_click w fo s) = None" by (simp add: confirm_shipment_blank [OF a])
next
  fix i p assume a: "sent (updateStatus w Shipped st s) = Some (i, p)"
  note u = updateStatus_sent [OF a]
  show "set_status p = Some Shipped" using u by simp
  show "set_tracking_number p = Some (trim (trackingNumber st))" using u by simp
  show "trim (trackingNumber st) \<noteq> []" using u by simp
  then show "\<not> spec_blank (trackingNumber st)" by (simp add: trim_empty_iff)
next
  fix i p assume a: "sent (confirm_shipment_click w fo s) = Some (i, p)"
  note u = confirm_shipment_sent [OF a]
  show "set_status p = Some Shipped" using u by simp
  show "set_tracking_number p = Some (trim (tracking fo))" using u by simp
  show "trim (tracking fo) \<noteq> []" using u by simp
  then show "\<not> spec_blank (tracking fo)" by (simp add: trim_empty_iff)
next
  fix r assume "r \<in> set (orders (stored (updateStatus w Shipped st s)))"
  then show "r \<in> set (orders s)
        \<or> (status r = Shipped \<and> tracking_number r = Some (trim (trackingNumber st))
            \<and> trim (trackingNumber st) \<noteq> [])"
    by (rule updateStatus_rows)
next
  fix r assume "r \<in> set (orders (stored (confirm_shipment_click w fo s)))"
  then show "r \<in> set (orders s)
        \<or> (status r = Shipped \<and> tracking_number r = Some (trim (tracking fo))
            \<and> trim (tracking fo) \<noteq> [])"
    by (rule confirm_shipment_rows)
qed

lemma example_trim: "trim [0x20, 0x54, 0x48, 0x31, 0x20] = [0x54, 0x48, 0x31]"
  by (simp add: trim_def is_js_whitespace_def)

lemma example_blank: "spec_blank [0x20, 0x9]" "spec_blank [0x20]"
  by (simp_all add: spec_blank_def is_js_whitespace_def)

lemma example_trim_space: "trim [0x20] = []"
  by (simp add: trim_def is_js_whitespace_def)

lemma example_filled_sent:
  "sent (updateStatus calm_world Shipped filled_detail store1)
     = Some (''o1'', no_patch \<lparr> set_status := Some Shipped, set_shipped_at := Some 2592000001,
                set_tracking_number := Some [0x54, 0x48, 0x31] \<rparr>)"
proof -
  have a: "order_st filled_detail = Some order1" by (simp add: filled_detail_def)
  have b: "trim (trackingNumber filled_detail) \<noteq> []" by (simp add: filled_detail_def example_trim)
  show ?thesis
    using updateStatus_filled [OF a b, of calm_world store1]
    by (simp add: shipped_patch_def filled_detail_def example_trim example_world_fields order1_def
        calm_world_def)
qed

text \<open>
  At the examples: a tracking field of a space and a tab, and a modal with a
  single space, send nothing; \<^verbatim>\<open>" TH1 "\<close> is sent as \<^verbatim>\<open>"TH1"\<close>.
\<close>

lemma trimming_ship_operations_example:
  "order_st blank_detail = Some order1 \<and> spec_blank (trackingNumber blank_detail)
   \<and> stored (updateStatus calm_world Shipped blank_detail store1) = store1
   \<and> sent (updateStatus calm_world Shipped blank_detail store1) = None
   \<and> spec_blank (tracking blank_modal)
   \<and> stored (confirm_shipment_click calm_world blank_modal store1) = store1
   \<and> sent (confirm_shipment_click calm_world blank_modal store1) = None
   \<and> sent (updateStatus calm_world Shipped filled_detail store1)
       = Some (''o1'', no_patch \<lparr> set_status := Some Shipped, set_shipped_at := Some 2592000001,
                  set_tracking_number := Some [0x54, 0x48, 0x31] \<rparr>)
   \<and> trim (trackingNumber filled_detail) = [0x54, 0x48, 0x31]
   \<and> \<not> spec_blank (trackingNumber filled_detail)"
proof -
  have a: "order_st blank_detail = Some order1" "spec_blank (trackingNumber blank_detail)"
    "spec_blank (tracking blank_modal)"
    by (simp_all add: blank_detail_def blank_modal_def example_blank)
  have t: "trim (trackingNumber filled_detail) = [0x54, 0x48, 0x31]"
    by (simp add: filled_detail_def example_trim)
  note b = trimming_ship_operations
    [of blank_detail order1 calm_world store1 blank_modal]
  note c = trimming_ship_operations
    [of filled_detail order1 calm_world store1 blank_modal]
  show ?thesis
    using a t b c example_filled_sent by simp
qed

text \<open>
  Claim C8 fails on the code. The farm page that keeps the lifecycle on the
  reservations table has a ship modal of its own, whose button is disabled only
  while the tracking field is the empty string and whose handler sends the field
  as typed. With a tracking field of one space, which is white space only, a
  click on the button is not rejected: it sends the write with the status
  \<^verbatim>\<open>shipped\<close> and the tracking number \<^verbatim>\<open>" "\<close>, the page shows \<^verbatim>\<open>Updated\<close>, and the
  confirmed reservation ends shipped with that tracking number.
\<close>

theorem shipment_with_blank_tracking_number:
  "spec_blank (tracking_r space_modal) \<and> trim (tracking_r space_modal) = []
   \<and> map status (reservations store4) = [Confirmed]
   \<and> sent (confirm_click_reservation calm_world space_modal store4)
       = Some (''o1'', \<lparr> set_status = Some Shipped, set_confirmed_at = None,
                         set_shipped_at = Some 2592000001, set_delivered_at = None,
                         set_cancelled_at = None, set_cancellation_reason = None,
                         set_tracking_number = Some [0x20], set_carrier = None \<rparr>)
   \<and> shown (confirm_click_reservation calm_world space_modal store4) = Some (ToastSuccess ''Updated'')
   \<and> reservations (stored (confirm_click_reservation calm_world space_modal store4))
       = [confirmed1 \<lparr> status := Shipped, tracking_number := Some [0x20],
                        shipped_at := Some 2592000001 \<rparr>]
   \<and> map status (reservations (stored (confirm_click_reservation calm_world space_modal store4)))
       = [Shipped]
   \<and> map tracking_number (reservations (stored (confirm_click_reservation calm_world space_modal store4)))
       = [Some [0x20]]"
  by (simp add: confirm_click_reservation_def updateStatus_reservation_def Let_def
      example_world_fields update_reservations_def space_modal_def example_blank example_trim_space)
     (simp add: no_patch_def keep_def merge_patch_def store4_def store1_def confirmed1_def
      order1_def calm_world_def)

section \<open>Reviews\<close>

lemma existing_review_Some:
  assumes "existing_review w s i = Some x"
  shows "i \<in> set (map order_id (reviews s))"
proof -
  from assms have "filter (\<lambda>r. order_id r = i) (reviews s) = [x]"
    by (auto simp: existing_review_def split: option.splits list.splits)
  then have "x \<in> set (filter (\<lambda>r. order_id r = i) (reviews s))" by simp
  then have "x \<in> set (reviews s)" and "order_id x = i" by simp_all
  then show ?thesis by (auto simp: image_iff)
qed

lemma existing_review_single:
  "filter (\<lambda>r. order_id r = i) (reviews s) = [x] \<Longrightarrow>
   existing_review w s i = (case lookup_error w i of Some e \<Rightarrow> None | None \<Rightarrow> Some x)"
  by (simp add: existing_review_def split: option.splits)

lemma insert_review_Inr:
  assumes "insert_review w row s = Inr s1"
  shows "s1 = s \<lparr> reviews := reviews s @ [row] \<rparr>"
    and "order_id row \<notin> set (map order_id (reviews s))"
    and "auth_uid w = Some (r_user_id row)"
    and "r_user_id row \<in> set (users s)"
  using assms by (simp_all add: insert_review_def split: if_splits option.splits)

lemma insert_review_duplicate:
  "order_id row \<in> set (map order_id (reviews s)) \<Longrightarrow> insert_review w row s = Inl (constraint_error w)"
  by (simp add: insert_review_def)

lemma payload_ids:
  "order_id (review_payload st sel) = o_id sel" "r_farm_id (review_payload st sel) = o_id sel"
  "r_user_id (review_payload st sel) = o_id sel" "rating (review_payload st sel) = rating_st st"
  "comment (review_payload st sel) = comment_st st"
  by (simp_all add: review_payload_def)

lemma reviewed_row:
  "update_row (no_patch \<lparr> set_status := Some Reviewed \<rparr>) t r
     = r \<lparr> status := Reviewed, updated_at := Some t \<rparr>"
  by (simp add: update_row_def merge_patch_def no_patch_def keep_def)

lemma reviews_mark_reviewed [simp]: "reviews (mark_reviewed w i s) = reviews s"
  by (cases "update_error w i") (simp_all add: mark_reviewed_def update_own_orders_def)

lemma orders_mark_reviewed:
  "orders (mark_reviewed w i s)
     = (case update_error w i of
          Some e \<Rightarrow> orders s
        | None \<Rightarrow> map (\<lambda>r. if o_id r = i \<and> may_update w r
                            then r \<lparr> status := Reviewed, updated_at := Some (db_clock w i) \<rparr>
                            else r) (orders s))"
  by (cases "update_error w i") (simp_all add: mark_reviewed_def update_own_orders_def reviewed_row)

lemma submitReview_no_selection:
  "selectedOrder st = None \<Longrightarrow>
   submitReview w st s = \<lparr> page = st, stored = s, shown = None, sent = None \<rparr>"
  by (simp add: submitReview_def)

lemma submitReview_existing:
  assumes "selectedOrder st = Some sel" and "existing_review w s (o_id sel) = Some x"
  shows "submitReview w st s
           = \<lparr> page = st, stored = s, shown = Some (ToastError already_reviewed_text), sent = None \<rparr>"
  using assms by (simp add: submitReview_def)

lemma submitReview_rejected:
  assumes "selectedOrder st = Some sel" and "existing_review w s (o_id sel) = None"
    and "insert_review w (review_payload st sel) s = Inl e"
  shows "submitReview w st s
           = \<lparr> page = st, stored = s, shown = Some (ToastError (error_message e)), sent = None \<rparr>"
  using assms by (simp add: submitReview_def)

lemma submitReview_inserted:
  assumes "selectedOrder st = Some sel" and "existing_review w s (o_id sel) = None"
    and "insert_review w (review_payload st sel) s = Inr s1"
  shows "submitReview w st s
           = \<lparr> page = \<lparr> selectedOrder = None, rating_st = 5, comment_st = [], openReview = False \<rparr>,
               stored = mark_reviewed w (o_id sel) s1,
               shown = Some (ToastSuccess thanks_text),
               sent = Some (o_id sel, no_patch \<lparr> set_status := Some Reviewed \<rparr>) \<rparr>"
  using assms by (simp add: submitReview_def)

text \<open>
  A submission that shows the success toast went through the insert: the order
  had no review, and its id is the id of the signed-in user.
\<close>

lemma submitReview_success:
  assumes "selectedOrder st = Some sel"
    and "shown (submitReview w st s) = Some (ToastSuccess thanks_text)"
  shows "submitReview w st s
           = \<lparr> page = \<lparr> selectedOrder = None, rating_st = 5, comment_st = [], openReview = False \<rparr>,
               stored = mark_reviewed w (o_id sel) (s \<lparr> reviews := reviews s @ [review_payload st sel] \<rparr>),
               shown = Some (ToastSuccess thanks_text),
               sent = Some (o_id sel, no_patch \<lparr> set_status := Some Reviewed \<rparr>) \<rparr>"
    and "o_id sel \<notin> set (map order_id (reviews s))"
    and "auth_uid w = Some (o_id sel)"
proof -
  have "submitReview w st s
           = \<lparr> page = \<lparr> selectedOrder = None, rating_st = 5, comment_st = [], openReview = False \<rparr>,
               stored = mark_reviewed w (o_id sel) (s \<lparr> reviews := reviews s @ [review_payload st sel] \<rparr>),
               shown = Some (ToastSuccess thanks_text),
               sent = Some (o_id sel, no_patch \<lparr> set_status := Some Reviewed \<rparr>) \<rparr>
         \<and> o_id sel \<notin> set (map order_id (reviews s)) \<and> auth_uid w = Some (o_id sel)"
  proof (cases "existing_review w s (o_id sel)")
    case (Some x)
    from submitReview_existing [OF assms(1) Some] assms(2) show ?thesis by simp
  next
    case None
    show ?thesis
    proof (cases "insert_review w (review_payload st sel) s")
      case (Inl e)
      from submitReview_rejected [OF assms(1) None Inl] assms(2) show ?thesis by simp
    next
      case (Inr s1)
      note i = insert_review_Inr [OF Inr]
      from submitReview_inserted [OF assms(1) None Inr] i(1,2,3)
      show ?thesis by (simp add: payload_ids)
    qed
  qed
  then show "submitReview w st s
           = \<lparr> page = \<lparr> selectedOrder = None, rating_st = 5, comment_st = [], openReview = False \<rparr>,
               stored = mark_reviewed w (o_id sel) (s \<lparr> reviews := reviews s @ [review_payload st sel] \<rparr>),
               shown = Some (ToastSuccess thanks_text),
               sent = Some (o_id sel, no_patch \<lparr> set_status := Some Reviewed \<rparr>) \<rparr>"
    and "o_id sel \<notin> set (map order_id (reviews s))"
    and "auth_uid w = Some (o_id sel)"
    by simp_all
qed

lemma submitReview_reviews:
  "reviews (stored (submitReview w st s))
     = (case selectedOrder st of
          None \<Rightarrow> reviews s
        | Some sel \<Rightarrow>
            if shown (submitReview w st s) = Some (ToastSuccess thanks_text)
            then reviews s @ [review_payload st sel] else reviews s)"
proof (cases "selectedOrder st")
  case None
  then show ?thesis by (simp add: submitReview_no_selection)
next
  case (Some sel)
  note sel = Some
  show ?thesis
  proof (cases "existing_review w s (o_id sel)")
    case (Some x)
    from submitReview_existing [OF sel Some] show ?thesis using sel by simp
  next
    case None
    show ?thesis
    proof (cases "insert_review w (review_payload st sel) s")
      case (Inl e)
      from submitReview_rejected [OF sel None Inl] show ?thesis using sel by simp
    next
      case (Inr s1)
      from insert_review_Inr(1) [OF Inr] submitReview_inserted [OF sel None Inr]
      show ?thesis using sel by simp
    qed
  qed
qed

text \<open>
  A submission for an order that has a review already: the look-up stops it, or,
  when the look-up yields nothing, the unique constraint does at the insert.
\<close>

lemma submitReview_duplicate:
  assumes "selectedOrder st = Some sel" and "o_id sel \<in> set (map order_id (reviews s))"
  shows "submitReview w st s
           = \<lparr> page = st, stored = s,
               shown = Some (ToastError (case existing_review w s (o_id sel) of
                                           Some x \<Rightarrow> already_reviewed_text
                                         | None \<Rightarrow> error_message (constraint_error w))),
               sent = None \<rparr>"
proof (cases "existing_review w s (o_id sel)")
  case (Some x)
  from submitReview_existing [OF assms(1) Some] Some show ?thesis by simp
next
  case None
  have "insert_review w (review_payload st sel) s = Inl (constraint_error w)"
    using assms(2) by (simp add: insert_review_duplicate payload_ids)
  from submitReview_rejected [OF assms(1) None this] None show ?thesis by simp
qed

lemma submitReview_keeps_unique:
  assumes "distinct (map order_id (reviews s))"
  shows "distinct (map order_id (reviews (stored (submitReview w st s))))"
proof (cases "selectedOrder st")
  case None
  then show ?thesis using assms by (simp add: submitReview_no_selection)
next
  case (Some sel)
  show ?thesis
  proof (cases "shown (submitReview w st s) = Some (ToastSuccess thanks_text)")
    case True
    from submitReview_success(2) [OF Some True]
    show ?thesis
      using assms Some True by (simp add: submitReview_reviews payload_ids)
  next
    case False
    then show ?thesis using assms Some by (simp add: submitReview_reviews)
  qed
qed

lemma filter_none: "i \<notin> set (map k xs) \<Longrightarrow> filter (\<lambda>r. k r = i) xs = []"
  by (induction xs) auto

lemma existing_after_success:
  assumes "selectedOrder st = Some sel"
    and "shown (submitReview w st s) = Some (ToastSuccess thanks_text)"
  shows "existing_review w' (stored (submitReview w st s)) (o_id sel)
           = (case lookup_error w' (o_id sel) of
                Some e \<Rightarrow> None
              | None \<Rightarrow> Some (review_payload st sel))"
proof -
  have r: "reviews (stored (submitReview w st s)) = reviews s @ [review_payload st sel]"
    using assms by (simp add: submitReview_reviews)
  have "filter (\<lambda>r. order_id r = o_id sel) (reviews s) = []"
    using submitReview_success(2) [OF assms] by (rule filter_none)
  then have "filter (\<lambda>r. order_id r = o_id sel) (reviews (stored (submitReview w st s)))
               = [review_payload st sel]"
    unfolding r by (simp add: payload_ids)
  then show ?thesis by (rule existing_review_single)
qed

lemma second_submission:
  assumes "selectedOrder st = Some sel"
    and "shown (submitReview w st s) = Some (ToastSuccess thanks_text)"
    and "selectedOrder st' = Some sel'" and "o_id sel' = o_id sel"
  shows "submitReview w' st' (stored (submitReview w st s))
           = \<lparr> page = st', stored = stored (submitReview w st s),
               shown = Some (ToastError (case lookup_error w' (o_id sel) of
                                           None \<Rightarrow> already_reviewed_text
                                         | Some e \<Rightarrow> error_message (constraint_error w'))),
               sent = None \<rparr>"
proof -
  have r: "reviews (stored (submitReview w st s)) = reviews s @ [review_payload st sel]"
    using assms(1,2) by (simp add: submitReview_reviews)
  have m: "o_id sel' \<in> set (map order_id (reviews (stored (submitReview w st s))))"
    unfolding r using assms(4) by (simp add: payload_ids)
  note d = submitReview_duplicate [OF assms(3) m, of w']
  note e = existing_after_success [OF assms(1,2), of w']
  show ?thesis
    unfolding d assms(4) e by (cases "lookup_error w' (o_id sel)") simp_all
qed

text \<open>
  Claim C7, as amended. For a selected order, a submission that reports success
  has added exactly one review row, for that order, which had none, and has sent
  the update that sets the order's status to reviewed; when the store accepts
  that update, the rows of the order that the update policy of the orders table
  lets the signed-in user change are reviewed afterwards, and no other row of the
  table has changed. After a success, any submission for the same order, from
  whatever page state and whatever the store answers, inserts no review, sends no
  write and leaves the store as it is: it is stopped by the look-up that precedes
  the insert, with the already-reviewed toast, or, when the look-up itself fails,
  by the unique constraint of the table at the insert, with the message of that
  error. The same holds in any store that already has a review of the order. A
  reviews table that holds no two reviews of one order stays so.
\<close>

theorem review_once_per_order:
  assumes "selectedOrder st = Some sel"
  shows "(shown (submitReview w st s) = Some (ToastSuccess thanks_text) \<longrightarrow>
            o_id sel \<notin> set (map order_id (reviews s))
            \<and> reviews (stored (submitReview w st s)) = reviews s @ [review_payload st sel]
            \<and> order_id (review_payload st sel) = o_id sel
            \<and> sent (submitReview w st s) = Some (o_id sel, no_patch \<lparr> set_status := Some Reviewed \<rparr>)
            \<and> (update_error w (o_id sel) = None \<longrightarrow>
                  orders (stored (submitReview w st s))
                    = map (\<lambda>r. if o_id r = o_id sel \<and> may_update w r
                                then r \<lparr> status := Reviewed,
                                         updated_at := Some (db_clock w (o_id sel)) \<rparr>
                                else r) (orders s))
            \<and> (\<forall>w' st' sel'. selectedOrder st' = Some sel' \<and> o_id sel' = o_id sel \<longrightarrow>
                  submitReview w' st' (stored (submitReview w st s))
                    = \<lparr> page = st', stored = stored (submitReview w st s),
                        shown = Some (ToastError
                                  (case lookup_error w' (o_id sel) of
                                     None \<Rightarrow> already_reviewed_text
                                   | Some e \<Rightarrow> error_message (constraint_error w'))),
                        sent = None \<rparr>))
         \<and> (o_id sel \<in> set (map order_id (reviews s)) \<longrightarrow>
              submitReview w st s
                = \<lparr> page = st, stored = s,
                    shown = Some (ToastError
                              (case existing_review w s (o_id sel) of
                                 Some x \<Rightarrow> already_reviewed_text
                               | None \<Rightarrow> error_message (constraint_error w))),
                    sent = None \<rparr>)
         \<and> (distinct (map order_id (reviews s)) \<longrightarrow>
              distinct (map order_id (reviews (stored (submitReview w st s)))))"
proof (intro conjI impI allI)
  assume ok: "shown (submitReview w st s) = Some (ToastSuccess thanks_text)"
  note su = submitReview_success [OF assms ok]
  show "o_id sel \<notin> set (map order_id (reviews s))" by (rule su(2))
  show "reviews (stored (submitReview w st s)) = reviews s @ [review_payload st sel]"
    using assms ok by (simp add: submitReview_reviews)
  show "order_id (review_payload st sel) = o_id sel"
    by (simp add: payload_ids)
  show "sent (submitReview w st s) = Some (o_id sel, no_patch \<lparr> set_status := Some Reviewed \<rparr>)"
    unfolding su(1) by simp
  show "orders (stored (submitReview w st s))
          = map (\<lambda>r. if o_id r = o_id sel \<and> may_update w r
                      then r \<lparr> status := Reviewed,
                               updated_at := Some (db_clock w (o_id sel)) \<rparr>
                      else r) (orders s)"
    if "update_error w (o_id sel) = None"
    unfolding su(1) using that by (simp add: orders_mark_reviewed)
  fix w' and st' :: user_orders and sel'
  assume again: "selectedOrder st' = Some sel' \<and> o_id sel' = o_id sel"
  then have a: "selectedOrder st' = Some sel'" and b: "o_id sel' = o_id sel" by simp_all
  show "submitReview w' st' (stored (submitReview w st s))
          = \<lparr> page = st', stored = stored (submitReview w st s),
              shown = Some (ToastError
                        (case lookup_error w' (o_id sel) of
                           None \<Rightarrow> already_reviewed_text
                         | Some e \<Rightarrow> error_message (constraint_error w'))),
              sent = None \<rparr>"
    using assms ok a b by (rule second_submission)
next
  assume "o_id sel \<in> set (map order_id (reviews s))"
  with assms show "submitReview w st s
          = \<lparr> page = st, stored = s,
              shown = Some (ToastError
                        (case existing_review w s (o_id sel) of
                           Some x \<Rightarrow> already_reviewed_text
                         | None \<Rightarrow> error_message (constraint_error w))),
              sent = None \<rparr>"
    by (rule submitReview_duplicate)
next
  assume "distinct (map order_id (reviews s))"
  then show "distinct (map order_id (reviews (stored (submitReview w st s))))"
    by (rule submitReview_keeps_unique)
qed

lemma example_review_facts:
  "selectedOrder review_page = Some delivered1" "o_id delivered1 = ''u1''"
  "o_user_id delivered1 = ''u1''" "o_farm_id delivered1 = ''f1''"
  "review_payload review_page delivered1
     = \<lparr> order_id = ''u1'', r_farm_id = ''u1'', r_user_id = ''u1'', rating = 4,
         comment = [0x4F, 0x4B] \<rparr>"
  "reviews store3 = []" "orders store3 = [delivered1]" "users store3 = [''u1'', ''f1'']"
  by (simp_all add: review_page_def review_payload_def delivered1_def order1_def store3_def
      store1_def)

lemma example_review_worlds:
  "auth_uid calm_world = Some ''u1''" "lookup_error calm_world i = None"
  "insert_error calm_world r = None" "db_clock calm_world i = 2592000002"
  "constraint_error calm_world = ErrorObject ''constraint''"
  "auth_uid update_failing_world = Some ''u1''" "lookup_error update_failing_world i = None"
  "insert_error update_failing_world r = None"
  "lookup_error lookup_failing_world i = Some (ErrorObject ''timeout'')"
  "constraint_error lookup_failing_world = ErrorObject ''constraint''"
  by (simp_all add: calm_world_def update_failing_world_def lookup_failing_world_def)

lemma example_review_inserted:
  "insert_review calm_world (review_payload review_page delivered1) store3
     = Inr (store3 \<lparr> reviews := [review_payload review_page delivered1] \<rparr>)"
  "insert_review update_failing_world (review_payload review_page delivered1) store3
     = Inr (store3 \<lparr> reviews := [review_payload review_page delivered1] \<rparr>)"
  by (simp_all add: insert_review_def example_review_facts example_review_worlds)

lemma example_review_submitted:
  "submitReview calm_world review_page store3
     = \<lparr> page = \<lparr> selectedOrder = None, rating_st = 5, comment_st = [], openReview = False \<rparr>,
         stored = store3 \<lparr> orders := [delivered1 \<lparr> status := Reviewed, updated_at := Some 2592000002 \<rparr>],
                           reviews := [\<lparr> order_id = ''u1'', r_farm_id = ''u1'', r_user_id = ''u1'',
                                         rating = 4, comment = [0x4F, 0x4B] \<rparr>] \<rparr>,
         shown = Some (ToastSuccess thanks_text),
         sent = Some (''u1'', no_patch \<lparr> set_status := Some Reviewed \<rparr>) \<rparr>"
proof -
  have ex: "existing_review calm_world store3 (o_id delivered1) = None"
    by (simp add: existing_review_def example_review_facts example_review_worlds)
  show ?thesis
    unfolding submitReview_inserted [OF example_review_facts(1) ex example_review_inserted(1)]
    by (simp add: mark_reviewed_def update_own_orders_def may_update_def reviewed_row
        example_review_facts example_review_worlds example_world_fields)
qed

lemma example_review_unmarked:
  "submitReview update_failing_world review_page store3
     = \<lparr> page = \<lparr> selectedOrder = None, rating_st = 5, comment_st = [], openReview = False \<rparr>,
         stored = store3 \<lparr> reviews := [\<lparr> order_id = ''u1'', r_farm_id = ''u1'', r_user_id = ''u1'',
                                         rating = 4, comment = [0x4F, 0x4B] \<rparr>] \<rparr>,
         shown = Some (ToastSuccess thanks_text),
         sent = Some (''u1'', no_patch \<lparr> set_status := Some Reviewed \<rparr>) \<rparr>"
proof -
  have ex: "existing_review update_failing_world store3 (o_id delivered1) = None"
    by (simp add: existing_review_def example_review_facts example_review_worlds)
  show ?thesis
    unfolding submitReview_inserted [OF example_review_facts(1) ex example_review_inserted(2)]
    by (simp add: mark_reviewed_def example_review_facts example_world_fields)
qed

text \<open>
  The amended claim C7 at the example: the first submission for the delivered
  order inserts its review and, its update accepted, marks the order reviewed; a
  second one changes nothing, whether its look-up succeeds or fails.
\<close>

theorem review_once_per_order_witness:
  "selectedOrder review_page = Some delivered1
   \<and> shown (submitReview calm_world review_page store3) = Some (ToastSuccess thanks_text)
   \<and> update_error calm_world (o_id delivered1) = None \<and> may_update calm_world delivered1
   \<and> length (reviews (stored (submitReview calm_world review_page store3))) = Suc (length (reviews store3))
   \<and> map order_id (reviews (stored (submitReview calm_world review_page store3))) = [o_id delivered1]
   \<and> map status (orders store3) = [Delivered]
   \<and> map status (orders (stored (submitReview calm_world review_page store3))) = [Reviewed]
   \<and> stored (submitReview calm_world review_page
         (stored (submitReview calm_world review_page store3)))
       = stored (submitReview calm_world review_page store3)
   \<and> shown (submitReview calm_world review_page
         (stored (submitReview calm_world review_page store3)))
       = Some (ToastError already_reviewed_text)
   \<and> stored (submitReview lookup_failing_world review_page
         (stored (submitReview calm_world review_page store3)))
       = stored (submitReview calm_world review_page store3)
   \<and> shown (submitReview lookup_failing_world review_page
         (stored (submitReview calm_world review_page store3)))
       = Some (ToastError ''constraint'')
   \<and> distinct (map order_id (reviews store3))
   \<and> distinct (map order_id (reviews (stored (submitReview calm_world review_page store3))))"
proof -
  note sel = example_review_facts(1)
  have ok: "shown (submitReview calm_world review_page store3) = Some (ToastSuccess thanks_text)"
    by (simp add: example_review_submitted)
  have u: "update_error calm_world (o_id delivered1) = None" "may_update calm_world delivered1"
    by (simp_all add: example_world_fields may_update_def example_review_worlds example_review_facts)
  have d: "distinct (map order_id (reviews store3))" by (simp add: example_review_facts)
  have s0: "map status (orders store3) = [Delivered]"
    by (simp add: example_review_facts) (simp add: delivered1_def)
  note t = review_once_per_order [OF sel, of calm_world store3]
  have rv: "reviews (stored (submitReview calm_world review_page store3))
              = reviews store3 @ [review_payload review_page delivered1]"
    using t ok by blast
  have len: "length (reviews (stored (submitReview calm_world review_page store3)))
               = Suc (length (reviews store3))"
    unfolding rv by simp
  have ids: "map order_id (reviews (stored (submitReview calm_world review_page store3)))
               = [o_id delivered1]"
    unfolding rv by (simp add: example_review_facts)
  have "orders (stored (submitReview calm_world review_page store3))
          = map (\<lambda>r. if o_id r = o_id delivered1 \<and> may_update calm_world r
                      then r \<lparr> status := Reviewed,
                               updated_at := Some (db_clock calm_world (o_id delivered1)) \<rparr>
                      else r) (orders store3)"
    using t ok u(1) by blast
  then have st: "map status (orders (stored (submitReview calm_world review_page store3))) = [Reviewed]"
    using u by (simp add: example_review_facts(7))
  have again: "\<And>w'. submitReview w' review_page (stored (submitReview calm_world review_page store3))
      = \<lparr> page = review_page, stored = stored (submitReview calm_world review_page store3),
          shown = Some (ToastError
                    (case lookup_error w' (o_id delivered1) of
                       None \<Rightarrow> already_reviewed_text
                     | Some e \<Rightarrow> error_message (constraint_error w'))),
          sent = None \<rparr>"
    using t ok sel by blast
  have d': "distinct (map order_id (reviews (stored (submitReview calm_world review_page store3))))"
    using t d by blast
  show ?thesis
    using sel ok u len ids s0 st d d'
    by (simp add: again example_review_worlds)
qed

text \<open>
  Claim C7 as stated fails for the status of the order. The store accepts the
  insert of the review and rejects the update of the order; \<^verbatim>\<open>submitReview\<close> does not
  read the result of the update, reports success, and the order that now has its
  review is still delivered, not reviewed. And a later submission whose look-up
  fails is not stopped before the insert: it reaches the insert and is rejected
  there by the unique constraint.
\<close>

theorem review_status_counterexample:
  "selectedOrder review_page = Some delivered1
   \<and> map status (orders store3) = [Delivered]
   \<and> shown (submitReview update_failing_world review_page store3) = Some (ToastSuccess thanks_text)
   \<and> map order_id (reviews (stored (submitReview update_failing_world review_page store3)))
       = [o_id delivered1]
   \<and> map status (orders (stored (submitReview update_failing_world review_page store3))) = [Delivered]
   \<and> existing_review lookup_failing_world (stored (submitReview calm_world review_page store3))
         (o_id delivered1) = None
   \<and> shown (submitReview lookup_failing_world review_page
         (stored (submitReview calm_world review_page store3)))
       = Some (ToastError (error_message (constraint_error lookup_failing_world)))
   \<and> shown (submitReview lookup_failing_world review_page
         (stored (submitReview calm_world review_page store3)))
       \<noteq> Some (ToastError already_reviewed_text)"
proof -
  have s0: "map status (orders store3) = [Delivered]"
    by (simp add: example_review_facts) (simp add: delivered1_def)
  have ok: "shown (submitReview calm_world review_page store3) = Some (ToastSuccess thanks_text)"
    by (simp add: example_review_submitted)
  have ex: "existing_review lookup_failing_world (stored (submitReview calm_world review_page store3))
              (o_id delivered1) = None"
    unfolding existing_after_success [OF example_review_facts(1) ok]
    by (simp add: example_review_worlds)
  have sh: "shown (submitReview lookup_failing_world review_page
              (stored (submitReview calm_world review_page store3)))
            = Some (ToastError ''constraint'')"
    by (simp add: second_submission [OF example_review_facts(1) ok example_review_facts(1) refl]
        example_review_worlds example_review_facts)
  have ne: "''constraint'' \<noteq> already_reviewed_text"
    by (simp add: already_reviewed_text_def)
  show ?thesis
    using s0 ex sh ne
    by (simp add: example_review_facts(1) example_review_unmarked example_review_worlds)
       (simp add: example_review_facts store3_def store1_def)
qed

section \<open>The ids in a review row\<close>



section \<open>Cancelling from the farm page\<close>

lemma cancel_click_patch:
  "sent (cancel_click w r s)
     = Some (o_id r, no_patch \<lparr> set_cancelled_at := Some (update_clock w (o_id r)),
                        set_status := Some Cancelled \<rparr>)"
  by (cases "update_error w (o_id r)")
     (simp_all add: cancel_click_def updateStatus_reservation_def Let_def no_patch_def keep_def)

text \<open>
  Claim C9 fails on the code. The cancel button of the farm page that works on
  the reservations table sends a patch with the status \<^verbatim>\<open>cancelled\<close> and
  \<^verbatim>\<open>cancelled_at\<close> and no cancellation reason; the row ends cancelled with its
  reason still null.
\<close>

theorem farm_cancel_sets_no_reason:
  "sent (cancel_click calm_world order1 store1)
     = Some (''o1'', \<lparr> set_status = Some Cancelled, set_confirmed_at = None, set_shipped_at = None,
                       set_delivered_at = None, set_cancelled_at = Some 2592000001,
                       set_cancellation_reason = None, set_tracking_number = None,
                       set_carrier = None \<rparr>)
   \<and> reservations (stored (cancel_click calm_world order1 store1))
       = [order1 \<lparr> status := Cancelled, cancelled_at := Some 2592000001 \<rparr>]
   \<and> map status (reservations (stored (cancel_click calm_world order1 store1))) = [Cancelled]
   \<and> map cancellation_reason (reservations (stored (cancel_click calm_world order1 store1))) = [None]"
  by (simp add: cancel_click_def updateStatus_reservation_def Let_def example_world_fields
      update_reservations_def)
     (simp add: no_patch_def keep_def merge_patch_def store1_def order1_def calm_world_def)

text \<open>
  The farm's order page, were it asked for \<^verbatim>\<open>cancelled\<close>, would send the status alone.
\<close>

lemma order_detail_cancel_patch:
  "status_updates Cancelled t tn = Some (no_patch \<lparr> set_status := Some Cancelled \<rparr>)"
  by (simp add: status_updates_def)

end
